theory Spec2Isabelle
  imports Complex_Main "HOL-Library.AList" "HOL-Library.Product_Lexorder"
begin

section \<open>Matrix factorisation by minibatch gradient descent: the notebook's code\<close>

text \<open>
  The development follows the notebook of unit 5 (model-based collaborative filtering):
  the initialisation cell, the training loop with its monitoring block,
  \<open>get_rmse\<close>, \<open>get_recommendations\<close>, \<open>get_relevant_items\<close> and the
  precision loop. A numpy array of shape \<open>(rows, d)\<close> is a list of rows; an entry is a
  real number (exact arithmetic stands for float64); where nan, infinities and signed
  zeros decide, for the learning rate zero, the loop is given again in float64 arithmetic.
  Exceptions are values of \<open>error\<close>;
  \<open>UnknownUser\<close> and \<open>UnknownItem\<close> are the failures the spec gives \<open>get_prediction\<close>.
\<close>

datatype error = IndexError | ValueError | ZeroDivisionError | NameError | UnknownUser | UnknownItem

type_synonym vec = "real list"
type_synonym matrix = "real list list"

text \<open>A row of the ratings data frame, columns \<open>user\<close>, \<open>item\<close>, \<open>rating\<close>.\<close>

record rating_row =
  user :: int
  item :: int
  rating :: real

subsection \<open>numpy indexing\<close>

text \<open>
  One integer index into an axis of length \<open>n\<close>: indices \<open>0 .. n-1\<close> address their row,
  indices \<open>-n .. -1\<close> count from the end, everything else raises IndexError.
\<close>

definition np_index :: "nat \<Rightarrow> int \<Rightarrow> error + nat" where
  "np_index n i =
     (if 0 \<le> i \<and> i < int n then Inr (nat i)
      else if - int n \<le> i \<and> i < 0 then Inr (nat (i + int n))
      else Inl IndexError)"

fun np_indices :: "nat \<Rightarrow> int list \<Rightarrow> error + nat list" where
  "np_indices n [] = Inr []"
| "np_indices n (i # idx) =
     (case np_index n i of
        Inl e \<Rightarrow> Inl e
      | Inr j \<Rightarrow> (case np_indices n idx of Inl e \<Rightarrow> Inl e | Inr js \<Rightarrow> Inr (j # js)))"

text \<open>\<open>A[idx]\<close> with an integer array \<open>idx\<close>: a fresh array holding the addressed rows.\<close>

definition getitem :: "matrix \<Rightarrow> int list \<Rightarrow> error + matrix" where
  "getitem A idx =
     (case np_indices (length A) idx of
        Inl e \<Rightarrow> Inl e
      | Inr js \<Rightarrow> Inr (map (\<lambda>j. A ! j) js))"

text \<open>
  \<open>A[idx] = rows\<close>: the rows are assigned one after the other, so for a repeated index the
  last assignment stays.
\<close>

definition setitem :: "matrix \<Rightarrow> nat list \<Rightarrow> matrix \<Rightarrow> matrix" where
  "setitem A js rows = foldl (\<lambda>B (j, r). B[j := r]) A (zip js rows)"

text \<open>
  \<open>A[idx] -= D\<close>: numpy reads \<open>A[idx]\<close> into a temporary, subtracts \<open>D\<close> from the
  temporary and assigns the temporary back to \<open>A[idx]\<close>. \<open>D\<close> has to have the shape of the
  temporary (one row per index, each of the row's width); a \<open>D\<close> of another shape raises
  ValueError here (numpy's broadcasting of a single row or column is not part of the model).
\<close>

definition isub :: "matrix \<Rightarrow> int list \<Rightarrow> matrix \<Rightarrow> error + matrix" where
  "isub A idx D =
     (case np_indices (length A) idx of
        Inl e \<Rightarrow> Inl e
      | Inr js \<Rightarrow>
          (let tmp = map (\<lambda>j. A ! j) js in
           if list_all2 (\<lambda>r d. length r = length d) tmp D
           then Inr (setitem A js (map2 (map2 (-)) tmp D))
           else Inl ValueError))"

definition scale :: "real \<Rightarrow> matrix \<Rightarrow> matrix" where
  "scale c G = map (map ((*) c)) G"

subsection \<open>Loss\<close>

text \<open>\<open>np.mean\<close> of a one-dimensional array; \<open>None\<close> is the \<open>nan\<close> of the empty array.\<close>

definition np_mean :: "real list \<Rightarrow> real option" where
  "np_mean xs = (if xs = [] then None else Some (sum_list xs / real (length xs)))"

definition row_dot :: "vec \<Rightarrow> vec \<Rightarrow> real" where
  "row_dot a b = sum_list (map2 (*) a b)"

definition get_rmse :: "real list \<Rightarrow> matrix \<Rightarrow> matrix \<Rightarrow> real option" where
  "get_rmse rating_values u v =
     (let pred = map2 row_dot u v;
          err = map2 (-) rating_values pred
      in map_option sqrt (np_mean (map (\<lambda>e. e\<^sup>2) err)))"

text \<open>
  Modelled from the spec: the body of \<open>compute_gradients\<close> is missing from the notebook
  (the exercise leaves it to the reader). Per instance: prediction = dot(user vector, item
  vector), error = true rating - prediction, user gradient = -2 * error * item vector,
  item gradient = -2 * error * user vector; one row per batch entry, not aggregated.
\<close>

definition compute_gradients :: "real list \<Rightarrow> matrix \<Rightarrow> matrix \<Rightarrow> error + matrix \<times> matrix" where
  "compute_gradients rating_values u v =
     (let pred = map2 row_dot u v;
          err = map2 (-) rating_values pred;
          u_grad = map2 (\<lambda>e vi. map (\<lambda>x. - 2 * e * x) vi) err v;
          v_grad = map2 (\<lambda>e ui. map (\<lambda>x. - 2 * e * x) ui) err u
      in Inr (u_grad, v_grad))"

subsection \<open>Training state and loop\<close>

text \<open>
  The module-level variables the training cell writes. \<open>printed\<close> is the output of the
  \<open>print\<close> call: epoch, batch RMSE and test RMSE of every monitoring tick.
\<close>

record state =
  user_factors :: matrix
  item_factors :: matrix
  rmse_trace :: "real option list"
  rmse_test_trace :: "real option list"
  printed :: "(nat \<times> real option \<times> real option) list"

text \<open>
  A statement sequence that may raise: the state when it stops, and the exception if one
  was raised. A \<open>for\<close> loop runs its body over a list and stops at the first exception.
\<close>

fun run_loop :: "('i \<Rightarrow> state \<Rightarrow> state \<times> error option) \<Rightarrow> 'i list \<Rightarrow> state \<Rightarrow> state \<times> error option" where
  "run_loop body [] st = (st, None)"
| "run_loop body (i # rest) st =
     (case body i st of
        (st', None) \<Rightarrow> run_loop body rest st'
      | (st', Some e) \<Rightarrow> (st', Some e))"

text \<open>
  The block under \<open>if not idx % 300\<close>. The batch RMSE uses the embeddings read before the
  update; the test RMSE reads both factor matrices at \<open>test_ratings['user'].values - 1\<close>.
\<close>

definition monitor :: "rating_row list \<Rightarrow> nat \<Rightarrow> real list \<Rightarrow> matrix \<Rightarrow> matrix \<Rightarrow> state \<Rightarrow> state \<times> error option" where
  "monitor test_ratings epoch rating_values user_embeds item_embeds st =
     (let rmse = get_rmse rating_values user_embeds item_embeds in
      case getitem (user_factors st) (map (\<lambda>r. user r - 1) test_ratings) of
        Inl e \<Rightarrow> (st, Some e)
      | Inr test_u \<Rightarrow>
     (case getitem (item_factors st) (map (\<lambda>r. user r - 1) test_ratings) of
        Inl e \<Rightarrow> (st, Some e)
      | Inr test_v \<Rightarrow>
          (let rmse_test = get_rmse (map rating test_ratings) test_u test_v in
           (st\<lparr>rmse_trace := rmse_trace st @ [rmse],
               rmse_test_trace := rmse_test_trace st @ [rmse_test],
               printed := printed st @ [(epoch, rmse, rmse_test)]\<rparr>, None))))"

text \<open>
  The gradient step of one minibatch: the statements of the loop body before the
  monitoring block, with the state at the point where an exception stops them. \<open>cg\<close> is
  \<open>compute_gradients\<close>, a parameter; the exercise's stub, run as it is, is
  \<open>\<lambda>_ _ _. Inl NameError\<close>. The step also returns \<open>user_embeds\<close> and \<open>item_embeds\<close>,
  which the monitoring block reads.
\<close>

definition update_step :: "(real list \<Rightarrow> matrix \<Rightarrow> matrix \<Rightarrow> error + matrix \<times> matrix) \<Rightarrow> real \<Rightarrow> rating_row list \<Rightarrow> state \<Rightarrow> (state \<times> error option) \<times> matrix \<times> matrix" where
  "update_step cg learning_rate minibatch st =
     (let uidx = map (\<lambda>r. user r - 1) minibatch;
          iidx = map (\<lambda>r. item r - 1) minibatch in
      case getitem (user_factors st) uidx of
        Inl e \<Rightarrow> ((st, Some e), [], [])
      | Inr user_embeds \<Rightarrow>
     (case getitem (item_factors st) iidx of
        Inl e \<Rightarrow> ((st, Some e), user_embeds, [])
      | Inr item_embeds \<Rightarrow>
     (case cg (map rating minibatch) user_embeds item_embeds of
        Inl e \<Rightarrow> ((st, Some e), user_embeds, item_embeds)
      | Inr (user_grads, item_grads) \<Rightarrow>
     (case isub (user_factors st) uidx (scale learning_rate user_grads) of
        Inl e \<Rightarrow> ((st, Some e), user_embeds, item_embeds)
      | Inr U' \<Rightarrow>
     (case isub (item_factors st) iidx (scale learning_rate item_grads) of
        Inl e \<Rightarrow> ((st\<lparr>user_factors := U'\<rparr>, Some e), user_embeds, item_embeds)
      | Inr V' \<Rightarrow>
          ((st\<lparr>user_factors := U', item_factors := V'\<rparr>, None), user_embeds, item_embeds))))))"

definition batch_step :: "(real list \<Rightarrow> matrix \<Rightarrow> matrix \<Rightarrow> error + matrix \<times> matrix) \<Rightarrow> real \<Rightarrow> rating_row list \<Rightarrow> nat \<Rightarrow> nat \<Rightarrow> rating_row list \<Rightarrow> state \<Rightarrow> state \<times> error option" where
  "batch_step cg learning_rate test_ratings epoch idx minibatch st =
     (case update_step cg learning_rate minibatch st of
        ((st', Some e), _) \<Rightarrow> (st', Some e)
      | ((st', None), user_embeds, item_embeds) \<Rightarrow>
          if idx mod 300 = 0
          then monitor test_ratings epoch (map rating minibatch) user_embeds item_embeds st'
          else (st', None))"

text \<open>
  \<open>ratings.iloc[a:b]\<close> for \<open>0 \<le> a \<le> b\<close>, the only slices the loop takes, and
  \<open>num_batches = int(np.ceil(len(ratings) / batch_size))\<close>.
\<close>

definition iloc :: "'a list \<Rightarrow> nat \<Rightarrow> nat \<Rightarrow> 'a list" where
  "iloc xs a b = take (b - a) (drop a xs)"

definition minibatch_at :: "'a list \<Rightarrow> nat \<Rightarrow> nat \<Rightarrow> 'a list" where
  "minibatch_at ratings batch_size idx = iloc ratings (idx * batch_size) ((idx + 1) * batch_size)"

definition num_batches :: "nat \<Rightarrow> int \<Rightarrow> error + int" where
  "num_batches len batch_size =
     (if batch_size = 0 then Inl ZeroDivisionError
      else Inr \<lceil>real len / real_of_int batch_size\<rceil>)"

definition train_epoch :: "(real list \<Rightarrow> matrix \<Rightarrow> matrix \<Rightarrow> error + matrix \<times> matrix) \<Rightarrow> real \<Rightarrow> int \<Rightarrow> rating_row list \<Rightarrow> rating_row list \<Rightarrow> int \<Rightarrow> nat \<Rightarrow> state \<Rightarrow> state \<times> error option" where
  "train_epoch cg learning_rate batch_size ratings test_ratings nb epoch st =
     run_loop (\<lambda>idx. batch_step cg learning_rate test_ratings epoch idx
                        (minibatch_at ratings (nat batch_size) idx))
       [0..<nat nb] st"

definition training :: "(real list \<Rightarrow> matrix \<Rightarrow> matrix \<Rightarrow> error + matrix \<times> matrix) \<Rightarrow> real \<Rightarrow> int \<Rightarrow> int \<Rightarrow> rating_row list \<Rightarrow> rating_row list \<Rightarrow> state \<Rightarrow> state \<times> error option" where
  "training cg learning_rate batch_size epochs ratings test_ratings st =
     (case num_batches (length ratings) batch_size of
        Inl e \<Rightarrow> (st, Some e)
      | Inr nb \<Rightarrow>
          run_loop (train_epoch cg learning_rate batch_size ratings test_ratings nb)
            [0..<nat epochs] st)"

text \<open>
  The minibatches the inner loop reads, in the order it reads them.
\<close>

definition minibatches :: "'a list \<Rightarrow> int \<Rightarrow> int \<Rightarrow> 'a list list" where
  "minibatches ratings batch_size nb = map (minibatch_at ratings (nat batch_size)) [0..<nat nb]"

subsection \<open>Initialisation cell and the whole run\<close>

text \<open>
  numpy's global random generator is a state \<open>'g\<close>: \<open>seed_rng\<close> is \<open>np.random.seed\<close>,
  \<open>normal\<close> is \<open>np.random.normal(0, 1, shape)\<close>, which returns the draws and the next
  generator state. \<open>sample\<close> is pandas' \<open>sample(frac=1, random_state=seed)\<close>, which
  shuffles the rows with a generator of its own made from the seed.
\<close>

definition initialize :: "(int \<Rightarrow> 'g) \<Rightarrow> ('g \<Rightarrow> nat \<times> nat \<Rightarrow> matrix \<times> 'g) \<Rightarrow> int \<Rightarrow> nat \<Rightarrow> nat \<Rightarrow> nat \<Rightarrow> 'g \<Rightarrow> state \<times> 'g" where
  "initialize seed_rng normal seed m n d g0 =
     (let g = seed_rng seed;
          (U, g1) = normal g (m, d);
          (V, g2) = normal g1 (n, d)
      in (\<lparr>user_factors = U, item_factors = V,
           rmse_trace = [], rmse_test_trace = [], printed = []\<rparr>, g2))"

definition fit :: "(int \<Rightarrow> 'g) \<Rightarrow> ('g \<Rightarrow> nat \<times> nat \<Rightarrow> matrix \<times> 'g) \<Rightarrow> (int \<Rightarrow> rating_row list \<Rightarrow> rating_row list) \<Rightarrow> (real list \<Rightarrow> matrix \<Rightarrow> matrix \<Rightarrow> error + matrix \<times> matrix) \<Rightarrow> int \<Rightarrow> nat \<Rightarrow> nat \<Rightarrow> nat \<Rightarrow> real \<Rightarrow> int \<Rightarrow> int \<Rightarrow> rating_row list \<Rightarrow> rating_row list \<Rightarrow> 'g \<Rightarrow> (state \<times> error option) \<times> rating_row list \<times> 'g" where
  "fit seed_rng normal sample cg seed m n d learning_rate batch_size epochs train_ratings test_ratings g0 =
     (let (st0, g) = initialize seed_rng normal seed m n d g0;
          ratings = sample seed train_ratings
      in (training cg learning_rate batch_size epochs ratings test_ratings st0, ratings, g))"

text \<open>
  For comparison with the loop above, a training that follows the spec's words: the batch
  order is shuffled once per epoch, with the configured seed offset by the epoch index.
\<close>

definition training_reshuffled :: "(int \<Rightarrow> rating_row list \<Rightarrow> rating_row list) \<Rightarrow> int \<Rightarrow> (real list \<Rightarrow> matrix \<Rightarrow> matrix \<Rightarrow> error + matrix \<times> matrix) \<Rightarrow> real \<Rightarrow> int \<Rightarrow> int \<Rightarrow> rating_row list \<Rightarrow> rating_row list \<Rightarrow> state \<Rightarrow> state \<times> error option" where
  "training_reshuffled sample seed cg learning_rate batch_size epochs train_ratings test_ratings st =
     (case num_batches (length train_ratings) batch_size of
        Inl e \<Rightarrow> (st, Some e)
      | Inr nb \<Rightarrow>
          run_loop (\<lambda>epoch. train_epoch cg learning_rate batch_size
                               (sample (seed + int epoch) train_ratings) test_ratings nb epoch)
            [0..<nat epochs] st)"

subsection \<open>Prediction and recommendation\<close>

text \<open>
  Modelled from the spec: the known positives of a user are the item ids of the user's
  training ratings, the keys of \<open>user_ratings[user]\<close>; a user without training ratings
  has none.
\<close>

definition known_positives :: "(int \<times> (int \<times> real) list) list \<Rightarrow> int \<Rightarrow> int list" where
  "known_positives user_ratings usr =
     (case map_of user_ratings usr of None \<Rightarrow> [] | Some rs \<Rightarrow> map fst rs)"

text \<open>
  Modelled from the spec: the body of \<open>get_prediction\<close> is missing from the notebook
  (the exercise leaves it to the reader). It scores every item row when no candidate ids
  are given and the given set otherwise, score = dot(user vector, item vector); it fails
  with UnknownUser / UnknownItem for an id outside the matrices' range; with
  \<open>remove_known_pos\<close> it removes the ids of the user's known positives (the keys of
  \<open>user_ratings[user]\<close>); the result is ordered by descending score, ties by ascending
  item id. The notebook's value \<open>{'pred': score}\<close> is the score itself here.
\<close>

definition get_prediction :: "(int \<times> (int \<times> real) list) list \<Rightarrow> matrix \<Rightarrow> matrix \<Rightarrow> int \<Rightarrow> int list option \<Rightarrow> bool \<Rightarrow> error + (int \<times> real) list" where
  "get_prediction user_ratings U V usr items remove_known_pos =
     (let candidates = (case items of None \<Rightarrow> [1..int (length V)] | Some its \<Rightarrow> remdups its);
          known = known_positives user_ratings usr
      in if usr < 1 \<or> int (length U) < usr then Inl UnknownUser
         else if list_ex (\<lambda>i. i < 1 \<or> int (length V) < i) candidates then Inl UnknownItem
         else
           (let kept = (if remove_known_pos then filter (\<lambda>i. i \<notin> set known) candidates
                        else candidates);
                preds = map (\<lambda>i. (i, row_dot (U ! nat (usr - 1)) (V ! nat (i - 1)))) kept
            in Inr (sort_key (\<lambda>(i, p). (- p, i)) preds)))"

text \<open>
  \<open>get_prediction\<close> as \<open>get_recommendations\<close> calls it: the user and
  \<open>remove_known_pos\<close> are passed, the other arguments are the defaults (the module's
  \<open>user_ratings\<close> and factor matrices, no candidate items).
\<close>

definition default_prediction :: "(int \<times> (int \<times> real) list) list \<Rightarrow> state \<Rightarrow> int \<Rightarrow> bool \<Rightarrow> error + (int \<times> real) list" where
  "default_prediction user_ratings st usr remove_known_pos =
     get_prediction user_ratings (user_factors st) (item_factors st) usr None remove_known_pos"

text \<open>
  The loop of \<open>get_recommendations\<close>: append, then compare the length with \<open>N\<close>.
  \<open>gp\<close> is \<open>get_prediction\<close> with its default arguments.
\<close>

fun collect :: "int \<Rightarrow> 'a list \<Rightarrow> 'a list \<Rightarrow> 'a list" where
  "collect N [] recommendations = recommendations"
| "collect N (p # rest) recommendations =
     (let recommendations' = recommendations @ [p]
      in if int (length recommendations') = N then recommendations'
         else collect N rest recommendations')"

definition get_recommendations :: "(int \<Rightarrow> bool \<Rightarrow> error + (int \<times> real) list) \<Rightarrow> int \<Rightarrow> int \<Rightarrow> bool \<Rightarrow> error + (int \<times> real) list" where
  "get_recommendations gp usr N remove_known_pos =
     (case gp usr remove_known_pos of
        Inl e \<Rightarrow> Inl e
      | Inr predictions \<Rightarrow> Inr (collect N predictions []))"

subsection \<open>Evaluation\<close>

text \<open>
  \<open>get_relevant_items\<close>: \<open>groupby('user')\<close> sorts the group keys; a group holds the
  user's items in the order of the frame.
\<close>

definition get_relevant_items :: "rating_row list \<Rightarrow> (int \<times> int list) list" where
  "get_relevant_items test_ratings =
     map (\<lambda>u. (u, map item (filter (\<lambda>r. user r = u) test_ratings)))
       (sort (remdups (map user test_ratings)))"

text \<open>\<open>np.intersect1d\<close>: the sorted, unique values that are in both arrays.\<close>

definition intersect1d :: "int list \<Rightarrow> int list \<Rightarrow> int list" where
  "intersect1d a b = sort (remdups (filter (\<lambda>x. x \<in> set b) a))"

definition precision_at_N :: "int list \<Rightarrow> int list \<Rightarrow> int \<Rightarrow> real" where
  "precision_at_N recommendations relevant N =
     real (length (intersect1d recommendations relevant)) / real_of_int N"

text \<open>
  The dict \<open>prec_at_N\<close> is an association list in insertion order; \<open>dict.fromkeys\<close> gives
  every user the value \<open>None\<close>. The loop runs over the entries of \<open>relevant_items\<close>;
  \<open>len(hits)/N\<close> raises ZeroDivisionError for \<open>N = 0\<close>.
\<close>

definition fromkeys :: "int list \<Rightarrow> (int \<times> real option) list" where
  "fromkeys users = foldl (\<lambda>d u. AList.update u None d) [] users"

fun precision_loop :: "(int \<Rightarrow> bool \<Rightarrow> error + (int \<times> real) list) \<Rightarrow> int \<Rightarrow> (int \<times> int list) list \<Rightarrow> (int \<times> real option) list \<Rightarrow> error + (int \<times> real option) list" where
  "precision_loop gp N [] prec_at_N = Inr prec_at_N"
| "precision_loop gp N ((usr, relevant) # rest) prec_at_N =
     (case get_recommendations gp usr N True of
        Inl e \<Rightarrow> Inl e
      | Inr recs \<Rightarrow>
          if N = 0 then Inl ZeroDivisionError
          else precision_loop gp N rest
                 (AList.update usr (Some (precision_at_N (map fst recs) relevant N)) prec_at_N))"

text \<open>\<open>np.mean([val for val in prec_at_N.values() if val is not None])\<close>.\<close>

definition mean_precision :: "(int \<times> real option) list \<Rightarrow> real option" where
  "mean_precision prec_at_N = np_mean (List.map_filter snd prec_at_N)"

definition evaluation :: "(int \<Rightarrow> bool \<Rightarrow> error + (int \<times> real) list) \<Rightarrow> int list \<Rightarrow> rating_row list \<Rightarrow> int \<Rightarrow> error + real option" where
  "evaluation gp data_users test_ratings N =
     (case precision_loop gp N (get_relevant_items test_ratings) (fromkeys data_users) of
        Inl e \<Rightarrow> Inl e
      | Inr prec_at_N \<Rightarrow> Inr (mean_precision prec_at_N))"

text \<open>
  The value the loop stores for one entry \<open>(user, relevant)\<close> of \<open>relevant_items\<close>, when
  \<open>get_recommendations\<close> returns for that user.
\<close>

definition user_precision :: "(int \<Rightarrow> bool \<Rightarrow> error + (int \<times> real) list) \<Rightarrow> int \<Rightarrow> int \<times> int list \<Rightarrow> real" where
  "user_precision gp N entry =
     precision_at_N (map fst (projr (get_recommendations gp (fst entry) N True))) (snd entry) N"

subsection \<open>The training loop in float64 arithmetic\<close>

text \<open>
  A float64 value: nan (its payload bits are not told apart), an infinity or a zero with
  its sign bit (\<open>True\<close> is negative), or a finite value that is not zero. \<open>rnd\<close> is
  the rounding of an exact result that is not zero to float64 (to a finite value, to an
  infinity on overflow, to a signed zero on underflow); it is a parameter of the
  arithmetic.
\<close>

datatype f64 = NaN | Inf bool | Zero bool | Fin real

text \<open>
  Negation, addition, subtraction and multiplication of IEEE 754 with rounding to
  nearest: the exact cases (nan, infinities, zeros and their signs) are written out, every
  other result is the rounding of the exact one.
\<close>

fun fneg :: "f64 \<Rightarrow> f64" where
  "fneg NaN = NaN"
| "fneg (Inf s) = Inf (\<not> s)"
| "fneg (Zero s) = Zero (\<not> s)"
| "fneg (Fin x) = Fin (- x)"

fun fadd :: "(real \<Rightarrow> f64) \<Rightarrow> f64 \<Rightarrow> f64 \<Rightarrow> f64" where
  "fadd rnd NaN b = NaN"
| "fadd rnd a NaN = NaN"
| "fadd rnd (Inf s) (Inf t) = (if s = t then Inf s else NaN)"
| "fadd rnd (Inf s) b = Inf s"
| "fadd rnd a (Inf t) = Inf t"
| "fadd rnd (Zero s) (Zero t) = Zero (s \<and> t)"
| "fadd rnd (Zero s) (Fin y) = Fin y"
| "fadd rnd (Fin x) (Zero t) = Fin x"
| "fadd rnd (Fin x) (Fin y) = (if x + y = 0 then Zero False else rnd (x + y))"

definition fsub :: "(real \<Rightarrow> f64) \<Rightarrow> f64 \<Rightarrow> f64 \<Rightarrow> f64" where
  "fsub rnd a b = fadd rnd a (fneg b)"

fun fmul :: "(real \<Rightarrow> f64) \<Rightarrow> f64 \<Rightarrow> f64 \<Rightarrow> f64" where
  "fmul rnd NaN b = NaN"
| "fmul rnd a NaN = NaN"
| "fmul rnd (Inf s) (Zero t) = NaN"
| "fmul rnd (Zero s) (Inf t) = NaN"
| "fmul rnd (Inf s) (Inf t) = Inf (s \<noteq> t)"
| "fmul rnd (Inf s) (Fin y) = Inf (s \<noteq> (y < 0))"
| "fmul rnd (Fin x) (Inf t) = Inf ((x < 0) \<noteq> t)"
| "fmul rnd (Zero s) (Zero t) = Zero (s \<noteq> t)"
| "fmul rnd (Zero s) (Fin y) = Zero (s \<noteq> (y < 0))"
| "fmul rnd (Fin x) (Zero t) = Zero ((x < 0) \<noteq> t)"
| "fmul rnd (Fin x) (Fin y) = rnd (x * y)"

text \<open>
  The arrays and the ratings frame with float64 entries.
\<close>

type_synonym matrix64 = "f64 list list"

record rating_row64 =
  user64 :: int
  item64 :: int
  rating64 :: f64

text \<open>
  \<open>A[idx]\<close> and \<open>A[idx] = rows\<close> as above.
\<close>

definition getitem64 :: "matrix64 \<Rightarrow> int list \<Rightarrow> error + matrix64" where
  "getitem64 A idx =
     (case np_indices (length A) idx of
        Inl e \<Rightarrow> Inl e
      | Inr js \<Rightarrow> Inr (map (\<lambda>j. A ! j) js))"

definition setitem64 :: "matrix64 \<Rightarrow> nat list \<Rightarrow> matrix64 \<Rightarrow> matrix64" where
  "setitem64 A js rows = foldl (\<lambda>B (j, r). B[j := r]) A (zip js rows)"

text \<open>
  numpy's broadcasting of the operand of \<open>A[idx] -= D\<close> to the shape of the temporary:
  along an axis the operand has the length of the temporary or the length 1, and an axis of
  length 1 is repeated.
\<close>

definition broadcast_axis :: "nat \<Rightarrow> 'a list \<Rightarrow> 'a list option" where
  "broadcast_axis k D =
     (if length D = k then Some D
      else if length D = 1 then Some (replicate k (hd D))
      else None)"

fun broadcast_cols :: "'b list list \<Rightarrow> 'a list list \<Rightarrow> 'a list list option" where
  "broadcast_cols [] [] = Some []"
| "broadcast_cols (r # tmp) (d # D) =
     (case broadcast_axis (length r) d of
        None \<Rightarrow> None
      | Some d' \<Rightarrow> (case broadcast_cols tmp D of None \<Rightarrow> None | Some D' \<Rightarrow> Some (d' # D')))"
| "broadcast_cols tmp D = None"

definition broadcast_to :: "'b list list \<Rightarrow> 'a list list \<Rightarrow> 'a list list option" where
  "broadcast_to tmp D =
     (case broadcast_axis (length tmp) D of None \<Rightarrow> None | Some D1 \<Rightarrow> broadcast_cols tmp D1)"

text \<open>
  \<open>A[idx] -= D\<close> and \<open>learning_rate * grads\<close> in float64.
\<close>

definition isub64 :: "(real \<Rightarrow> f64) \<Rightarrow> matrix64 \<Rightarrow> int list \<Rightarrow> matrix64 \<Rightarrow> error + matrix64" where
  "isub64 rnd A idx D =
     (case np_indices (length A) idx of
        Inl e \<Rightarrow> Inl e
      | Inr js \<Rightarrow>
          (let tmp = map (\<lambda>j. A ! j) js in
           case broadcast_to tmp D of
             None \<Rightarrow> Inl ValueError
           | Some D' \<Rightarrow> Inr (setitem64 A js (map2 (map2 (fsub rnd)) tmp D'))))"

definition scale64 :: "(real \<Rightarrow> f64) \<Rightarrow> f64 \<Rightarrow> matrix64 \<Rightarrow> matrix64" where
  "scale64 rnd c G = map (map (fmul rnd c)) G"

text \<open>
  The factor matrices. The RMSE values and the traces they go into are left out: nothing
  reads them. Of the monitoring block the two reads of held-out rows remain, which may
  raise.
\<close>

record state64 =
  user_factors64 :: matrix64
  item_factors64 :: matrix64

fun run_loop64 :: "('i \<Rightarrow> state64 \<Rightarrow> state64 \<times> error option) \<Rightarrow> 'i list \<Rightarrow> state64 \<Rightarrow> state64 \<times> error option" where
  "run_loop64 body [] st = (st, None)"
| "run_loop64 body (i # rest) st =
     (case body i st of
        (st', None) \<Rightarrow> run_loop64 body rest st'
      | (st', Some e) \<Rightarrow> (st', Some e))"

definition monitor64 :: "rating_row64 list \<Rightarrow> state64 \<Rightarrow> state64 \<times> error option" where
  "monitor64 test_ratings st =
     (case getitem64 (user_factors64 st) (map (\<lambda>r. user64 r - 1) test_ratings) of
        Inl e \<Rightarrow> (st, Some e)
      | Inr test_u \<Rightarrow>
     (case getitem64 (item_factors64 st) (map (\<lambda>r. user64 r - 1) test_ratings) of
        Inl e \<Rightarrow> (st, Some e)
      | Inr test_v \<Rightarrow> (st, None)))"

text \<open>
  The loop of the training cell as above.
\<close>

definition update_step64 :: "(real \<Rightarrow> f64) \<Rightarrow> (f64 list \<Rightarrow> matrix64 \<Rightarrow> matrix64 \<Rightarrow> error + matrix64 \<times> matrix64) \<Rightarrow> f64 \<Rightarrow> rating_row64 list \<Rightarrow> state64 \<Rightarrow> state64 \<times> error option" where
  "update_step64 rnd cg learning_rate minibatch st =
     (let uidx = map (\<lambda>r. user64 r - 1) minibatch;
          iidx = map (\<lambda>r. item64 r - 1) minibatch in
      case getitem64 (user_factors64 st) uidx of
        Inl e \<Rightarrow> (st, Some e)
      | Inr user_embeds \<Rightarrow>
     (case getitem64 (item_factors64 st) iidx of
        Inl e \<Rightarrow> (st, Some e)
      | Inr item_embeds \<Rightarrow>
     (case cg (map rating64 minibatch) user_embeds item_embeds of
        Inl e \<Rightarrow> (st, Some e)
      | Inr (user_grads, item_grads) \<Rightarrow>
     (case isub64 rnd (user_factors64 st) uidx (scale64 rnd learning_rate user_grads) of
        Inl e \<Rightarrow> (st, Some e)
      | Inr U' \<Rightarrow>
     (case isub64 rnd (item_factors64 st) iidx (scale64 rnd learning_rate item_grads) of
        Inl e \<Rightarrow> (st\<lparr>user_factors64 := U'\<rparr>, Some e)
      | Inr V' \<Rightarrow> (st\<lparr>user_factors64 := U', item_factors64 := V'\<rparr>, None))))))"

definition batch_step64 :: "(real \<Rightarrow> f64) \<Rightarrow> (f64 list \<Rightarrow> matrix64 \<Rightarrow> matrix64 \<Rightarrow> error + matrix64 \<times> matrix64) \<Rightarrow> f64 \<Rightarrow> rating_row64 list \<Rightarrow> nat \<Rightarrow> rating_row64 list \<Rightarrow> state64 \<Rightarrow> state64 \<times> error option" where
  "batch_step64 rnd cg learning_rate test_ratings idx minibatch st =
     (case update_step64 rnd cg learning_rate minibatch st of
        (st', Some e) \<Rightarrow> (st', Some e)
      | (st', None) \<Rightarrow>
          if idx mod 300 = 0 then monitor64 test_ratings st' else (st', None))"

definition train_epoch64 :: "(real \<Rightarrow> f64) \<Rightarrow> (f64 list \<Rightarrow> matrix64 \<Rightarrow> matrix64 \<Rightarrow> error + matrix64 \<times> matrix64) \<Rightarrow> f64 \<Rightarrow> int \<Rightarrow> rating_row64 list \<Rightarrow> rating_row64 list \<Rightarrow> int \<Rightarrow> nat \<Rightarrow> state64 \<Rightarrow> state64 \<times> error option" where
  "train_epoch64 rnd cg learning_rate batch_size ratings test_ratings nb epoch st =
     run_loop64 (\<lambda>idx. batch_step64 rnd cg learning_rate test_ratings idx
                          (minibatch_at ratings (nat batch_size) idx))
       [0..<nat nb] st"

definition training64 :: "(real \<Rightarrow> f64) \<Rightarrow> (f64 list \<Rightarrow> matrix64 \<Rightarrow> matrix64 \<Rightarrow> error + matrix64 \<times> matrix64) \<Rightarrow> f64 \<Rightarrow> int \<Rightarrow> int \<Rightarrow> rating_row64 list \<Rightarrow> rating_row64 list \<Rightarrow> state64 \<Rightarrow> state64 \<times> error option" where
  "training64 rnd cg learning_rate batch_size epochs ratings test_ratings st =
     (case num_batches (length ratings) batch_size of
        Inl e \<Rightarrow> (st, Some e)
      | Inr nb \<Rightarrow>
          run_loop64 (train_epoch64 rnd cg learning_rate batch_size ratings test_ratings nb)
            [0..<nat epochs] st)"

text \<open>
  Modelled from the spec: \<open>compute_gradients\<close> (body missing from the notebook) as
  above, computed in float64.
\<close>

definition row_dot64 :: "(real \<Rightarrow> f64) \<Rightarrow> f64 list \<Rightarrow> f64 list \<Rightarrow> f64" where
  "row_dot64 rnd a b =
     (case map2 (fmul rnd) a b of [] \<Rightarrow> Zero False | x # xs \<Rightarrow> foldl (fadd rnd) x xs)"

definition compute_gradients64 :: "(real \<Rightarrow> f64) \<Rightarrow> f64 list \<Rightarrow> matrix64 \<Rightarrow> matrix64 \<Rightarrow> error + matrix64 \<times> matrix64" where
  "compute_gradients64 rnd rating_values u v =
     (let pred = map2 (row_dot64 rnd) u v;
          err = map2 (fsub rnd) rating_values pred;
          u_grad = map2 (\<lambda>e vi. map (\<lambda>x. fmul rnd (fmul rnd (Fin (- 2)) e) x) vi) err v;
          v_grad = map2 (\<lambda>e ui. map (\<lambda>x. fmul rnd (fmul rnd (Fin (- 2)) e) x) ui) err u
      in Inr (u_grad, v_grad))"

text \<open>
  A matrix without nan and infinities, a matrix without the entry \<open>-0.0\<close>, and: the
  gradients that \<open>cg\<close> returns for a minibatch read from \<open>U\<close> and \<open>V\<close>, if it is
  called and returns, are finite.
\<close>

fun is_finite :: "f64 \<Rightarrow> bool" where
  "is_finite (Fin x) = True"
| "is_finite (Zero s) = True"
| "is_finite x = False"

definition finite_matrix :: "matrix64 \<Rightarrow> bool" where
  "finite_matrix G = list_all (list_all is_finite) G"

definition no_negative_zero :: "matrix64 \<Rightarrow> bool" where
  "no_negative_zero A = list_all (list_all (\<lambda>x. x \<noteq> Zero True)) A"

definition gradients_finite :: "(f64 list \<Rightarrow> matrix64 \<Rightarrow> matrix64 \<Rightarrow> error + matrix64 \<times> matrix64) \<Rightarrow> matrix64 \<Rightarrow> matrix64 \<Rightarrow> rating_row64 list \<Rightarrow> bool" where
  "gradients_finite cg U V minibatch =
     (case getitem64 U (map (\<lambda>r. user64 r - 1) minibatch) of
        Inl e \<Rightarrow> True
      | Inr user_embeds \<Rightarrow>
     (case getitem64 V (map (\<lambda>r. item64 r - 1) minibatch) of
        Inl e \<Rightarrow> True
      | Inr item_embeds \<Rightarrow>
     (case cg (map rating64 minibatch) user_embeds item_embeds of
        Inl e \<Rightarrow> True
      | Inr (user_grads, item_grads) \<Rightarrow> finite_matrix user_grads \<and> finite_matrix item_grads)))"

fun is_zero :: "f64 \<Rightarrow> bool" where
  "is_zero (Zero s) = True"
| "is_zero x = False"

subsection \<open>Example inputs\<close>

text \<open>
  The scenario of two users and two items with \<open>d = 1\<close> and the true factors
  \<open>u = [2, 1]\<close>, \<open>v = [2, 1]\<close>.
\<close>

definition ex_ratings :: "rating_row list" where
  "ex_ratings = [\<lparr>user = 1, item = 1, rating = 4\<rparr>, \<lparr>user = 1, item = 2, rating = 2\<rparr>,
                 \<lparr>user = 2, item = 1, rating = 2\<rparr>, \<lparr>user = 2, item = 2, rating = 1\<rparr>]"

definition ex_state :: state where
  "ex_state = \<lparr>user_factors = [[2], [1]], item_factors = [[2], [1]],
               rmse_trace = [], rmse_test_trace = [], printed = []\<rparr>"

text \<open>Two users and one item.\<close>

definition wrap_state :: state where
  "wrap_state = \<lparr>user_factors = [[1], [2]], item_factors = [[1]],
               rmse_trace = [], rmse_test_trace = [], printed = []\<rparr>"

text \<open>One user who rated both items, and a batch holding both of these ratings.\<close>

definition dup_state :: state where
  "dup_state = \<lparr>user_factors = [[1]], item_factors = [[1], [2]],
               rmse_trace = [], rmse_test_trace = [], printed = []\<rparr>"

definition dup_batch :: "rating_row list" where
  "dup_batch = [\<lparr>user = 1, item = 1, rating = 3\<rparr>, \<lparr>user = 1, item = 2, rating = 5\<rparr>]"

text \<open>Two users, two items with different factors, one held-out rating of user 2 for item 1.\<close>

definition swap_state :: state where
  "swap_state = \<lparr>user_factors = [[1], [1]], item_factors = [[1], [2]],
               rmse_trace = [], rmse_test_trace = [], printed = []\<rparr>"

definition swap_test :: "rating_row list" where
  "swap_test = [\<lparr>user = 2, item = 1, rating = 1\<rparr>]"

text \<open>
  A generator and a shuffle to run the initialisation cell on: the generator state is a
  counter, a draw fills the matrix with the counter's value, and the shuffle rotates the
  rows by the seed.
\<close>

definition ex_seed_rng :: "int \<Rightarrow> int" where
  "ex_seed_rng seed = seed"

definition ex_normal :: "int \<Rightarrow> nat \<times> nat \<Rightarrow> matrix \<times> int" where
  "ex_normal g shape = (replicate (fst shape) (replicate (snd shape) (real_of_int g)), g + 1)"

definition rot_sample :: "int \<Rightarrow> rating_row list \<Rightarrow> rating_row list" where
  "rot_sample seed rows = rotate (nat seed) rows"

definition two_ratings :: "rating_row list" where
  "two_ratings = [\<lparr>user = 1, item = 1, rating = 4\<rparr>, \<lparr>user = 2, item = 2, rating = 1\<rparr>]"

text \<open>Training ratings per user, and a prediction function over the factors of \<open>ex_state\<close>.\<close>

definition ex_user_ratings :: "(int \<times> (int \<times> real) list) list" where
  "ex_user_ratings = [(1, [(1, 4)]), (2, [])]"

definition ex_gp :: "int \<Rightarrow> bool \<Rightarrow> error + (int \<times> real) list" where
  "ex_gp = default_prediction ex_user_ratings ex_state"

text \<open>Held-out ratings: user 2 rated item 1.\<close>

definition ex_test :: "rating_row list" where
  "ex_test = [\<lparr>user = 2, item = 1, rating = 2\<rparr>]"

text \<open>Two training ratings of one user.\<close>

definition shared_user :: "rating_row list" where
  "shared_user = [\<lparr>user = 1, item = 1, rating = 4\<rparr>, \<lparr>user = 1, item = 2, rating = 1\<rparr>]"

text \<open>
  Inputs of the float64 loop: one user and two items that the factors do not fit, a frame
  with a nan rating, and a user factor \<open>-0.0\<close>. \<open>exact_rnd\<close> rounds nothing: it is the
  rounding of float64 on the small integers and binary fractions of these examples.
\<close>

definition exact_rnd :: "real \<Rightarrow> f64" where
  "exact_rnd x = Fin x"

definition ex_state64 :: state64 where
  "ex_state64 = \<lparr>user_factors64 = [[Fin 1]], item_factors64 = [[Fin 2], [Fin 2]]\<rparr>"

definition ex_ratings64 :: "rating_row64 list" where
  "ex_ratings64 = [\<lparr>user64 = 1, item64 = 2, rating64 = Fin 1\<rparr>,
                   \<lparr>user64 = 1, item64 = 1, rating64 = Fin 4\<rparr>]"

definition nan_ratings64 :: "rating_row64 list" where
  "nan_ratings64 = [\<lparr>user64 = 1, item64 = 1, rating64 = NaN\<rparr>]"

definition negative_zero_state64 :: state64 where
  "negative_zero_state64 = \<lparr>user_factors64 = [[Zero True]], item_factors64 = [[Fin 1]]\<rparr>"

section \<open>Lemmas\<close>

lemmas step_defs = update_step_def getitem_def isub_def setitem_def scale_def
  np_index_def row_dot_def compute_gradients_def Let_def

lemmas train_defs = training_def train_epoch_def num_batches_def minibatch_at_def iloc_def
  batch_step_def monitor_def get_rmse_def np_mean_def step_defs

lemmas train64_defs = training64_def train_epoch64_def num_batches_def minibatch_at_def iloc_def
  batch_step64_def monitor64_def update_step64_def getitem64_def isub64_def setitem64_def
  scale64_def np_index_def row_dot64_def compute_gradients64_def fsub_def broadcast_to_def
  broadcast_axis_def exact_rnd_def Let_def upt_rec

lemmas shuffle_defs = ex_seed_rng_def ex_normal_def rot_sample_def shared_user_def
  rotate_def rotate1_def numeral_2_eq_2 upt_rec

lemmas rec_defs = get_recommendations_def default_prediction_def get_prediction_def
  known_positives_def row_dot_def Let_def ex_gp_def ex_user_ratings_def ex_state_def

lemmas eval_defs = evaluation_def get_relevant_items_def fromkeys_def mean_precision_def
  np_mean_def precision_at_N_def intersect1d_def List.map_filter_simps rec_defs upto.simps
  sort_key_def ex_test_def

subsection \<open>Indexing\<close>

lemma np_index_bound: "np_index n i = Inr j \<Longrightarrow> j < n"
  by (auto simp: np_index_def split: if_splits)

lemma np_indices_length: "np_indices n idx = Inr js \<Longrightarrow> length js = length idx"
  by (induction idx arbitrary: js) (auto split: sum.splits)

lemma np_indices_set:
  "np_indices n idx = Inr js \<Longrightarrow> j \<in> set js \<Longrightarrow> \<exists>i \<in> set idx. np_index n i = Inr j"
  by (induction idx arbitrary: js) (auto split: sum.splits)

lemma np_indices_bound: "np_indices n idx = Inr js \<Longrightarrow> j \<in> set js \<Longrightarrow> j < n"
  using np_indices_set np_index_bound by blast

lemma length_setitem: "length (setitem A js rows) = length A"
proof -
  have "length (foldl (\<lambda>B (j, r). B[j := r]) A ps) = length A" for ps
    by (induction ps arbitrary: A) (auto split: prod.splits)
  then show ?thesis by (simp add: setitem_def)
qed

lemma setitem_frame: "j \<notin> set js \<Longrightarrow> setitem A js rows ! j = A ! j"
proof -
  have "j \<notin> fst ` set ps \<Longrightarrow> foldl (\<lambda>B (j, r). B[j := r]) A ps ! j = A ! j" for ps
    by (induction ps arbitrary: A) (auto split: prod.splits)
  moreover have "j \<notin> set js \<Longrightarrow> j \<notin> fst ` set (zip js rows)"
    by (auto dest: set_zip_leftD)
  ultimately show "j \<notin> set js \<Longrightarrow> setitem A js rows ! j = A ! j"
    by (simp add: setitem_def)
qed

lemma isub_length: "isub A idx D = Inr A' \<Longrightarrow> length A' = length A"
  by (auto simp: isub_def Let_def length_setitem split: sum.splits if_splits)

lemma isub_frame:
  assumes "isub A idx D = Inr A'" and "\<forall>i \<in> set idx. np_index (length A) i \<noteq> Inr j"
  shows "A' ! j = A ! j"
proof -
  from assms(1) obtain js where js: "np_indices (length A) idx = Inr js"
    and A': "A' = setitem A js (map2 (map2 (-)) (map (\<lambda>j. A ! j) js) D)"
    by (auto simp: isub_def Let_def split: sum.splits if_splits)
  from js assms(2) have "j \<notin> set js" using np_indices_set by blast
  with A' show ?thesis by (simp add: setitem_frame)
qed

lemma np_index_one_based: "1 \<le> u \<Longrightarrow> np_index n (u - 1) = Inr j \<Longrightarrow> j = nat (u - 1)"
  by (auto simp: np_index_def split: if_splits)

lemma np_index_error: "np_index n i = Inl e \<Longrightarrow> e = IndexError"
  by (auto simp: np_index_def split: if_splits)

lemma np_indices_error: "np_indices n idx = Inl e \<Longrightarrow> e = IndexError"
  by (induction idx) (auto split: sum.splits dest: np_index_error)

lemma np_indices_fail:
  "i \<in> set idx \<Longrightarrow> np_index n i = Inl e \<Longrightarrow> np_indices n idx = Inl IndexError"
proof (induction idx)
  case Nil then show ?case by simp
next
  case (Cons a idx)
  show ?case
  proof (cases "np_index n a")
    case (Inl e') then show ?thesis by (simp add: np_index_error)
  next
    case (Inr j)
    with Cons have "np_indices n idx = Inl IndexError" by auto
    with Inr show ?thesis by simp
  qed
qed

lemma np_index_out_of_range:
  "int n < u \<or> u \<le> - int n \<Longrightarrow> np_index n (u - 1) = Inl IndexError"
  by (auto simp: np_index_def)

subsection \<open>The loop and its steps\<close>

lemma run_loop_invariant:
  assumes "\<And>i s s' e. P s \<Longrightarrow> body i s = (s', e) \<Longrightarrow> P s'"
    and "P st" and "run_loop body xs st = (st', err)"
  shows "P st'"
  using assms(2,3)
proof (induction xs arbitrary: st)
  case Nil then show ?case by simp
next
  case (Cons i xs)
  obtain s1 e1 where b: "body i st = (s1, e1)" by (cases "body i st")
  with Cons.prems(1) have P1: "P s1" using assms(1) by blast
  show ?case
  proof (cases e1)
    case None
    with b Cons.prems(2) have "run_loop body xs s1 = (st', err)" by simp
    with P1 show ?thesis using Cons.IH by blast
  next
    case (Some e)
    with b Cons.prems(2) have "st' = s1" by simp
    with P1 show ?thesis by simp
  qed
qed

lemma monitor_factors:
  "monitor test_ratings epoch rv ue ie st = (st', err) \<Longrightarrow>
     user_factors st' = user_factors st \<and> item_factors st' = item_factors st"
  by (auto simp: monitor_def Let_def split: sum.splits)

lemma update_step_user_frame:
  assumes "update_step cg lr mb st = ((st', err), ue, ie)"
    and "\<forall>r \<in> set mb. np_index (length (user_factors st)) (user r - 1) \<noteq> Inr j"
  shows "user_factors st' ! j = user_factors st ! j"
proof -
  have "\<forall>i \<in> set (map (\<lambda>r. user r - 1) mb). np_index (length (user_factors st)) i \<noteq> Inr j"
    using assms(2) by simp
  then have "\<And>D A'. isub (user_factors st) (map (\<lambda>r. user r - 1) mb) D = Inr A' \<Longrightarrow> A' ! j = user_factors st ! j"
    using isub_frame by blast
  with assms(1) show ?thesis
    by (auto simp: update_step_def Let_def split: sum.splits prod.splits)
qed

lemma update_step_item_frame:
  assumes "update_step cg lr mb st = ((st', err), ue, ie)"
    and "\<forall>r \<in> set mb. np_index (length (item_factors st)) (item r - 1) \<noteq> Inr j"
  shows "item_factors st' ! j = item_factors st ! j"
proof -
  have "\<forall>i \<in> set (map (\<lambda>r. item r - 1) mb). np_index (length (item_factors st)) i \<noteq> Inr j"
    using assms(2) by simp
  then have "\<And>D A'. isub (item_factors st) (map (\<lambda>r. item r - 1) mb) D = Inr A' \<Longrightarrow> A' ! j = item_factors st ! j"
    using isub_frame by blast
  with assms(1) show ?thesis
    by (auto simp: update_step_def Let_def split: sum.splits prod.splits)
qed

lemma update_step_lengths:
  assumes "update_step cg lr mb st = ((st', err), ue, ie)"
  shows "length (user_factors st') = length (user_factors st) \<and>
         length (item_factors st') = length (item_factors st)"
  using assms
  by (auto simp: update_step_def Let_def split: sum.splits prod.splits dest: isub_length)

lemma update_step_index_error:
  assumes "r \<in> set mb"
    and "int (length (user_factors st)) < user r \<or> user r \<le> - int (length (user_factors st)) \<or>
         int (length (item_factors st)) < item r \<or> item r \<le> - int (length (item_factors st))"
  shows "fst (update_step cg lr mb st) = (st, Some IndexError)"
proof -
  let ?uidx = "map (\<lambda>r. user r - 1) mb" and ?iidx = "map (\<lambda>r. item r - 1) mb"
  consider (u) "int (length (user_factors st)) < user r \<or> user r \<le> - int (length (user_factors st))"
    | (i) "int (length (item_factors st)) < item r \<or> item r \<le> - int (length (item_factors st))"
    using assms(2) by blast
  then show ?thesis
  proof cases
    case u
    from assms(1) have "user r - 1 \<in> set ?uidx" by auto
    with np_index_out_of_range[OF u] have "np_indices (length (user_factors st)) ?uidx = Inl IndexError"
      using np_indices_fail by blast
    then show ?thesis by (simp add: update_step_def getitem_def)
  next
    case i
    from assms(1) have "item r - 1 \<in> set ?iidx" by auto
    with np_index_out_of_range[OF i] have e: "np_indices (length (item_factors st)) ?iidx = Inl IndexError"
      using np_indices_fail by blast
    show ?thesis
    proof (cases "np_indices (length (user_factors st)) ?uidx")
      case (Inl e')
      then show ?thesis by (simp add: update_step_def getitem_def np_indices_error)
    next
      case (Inr js)
      with e show ?thesis by (simp add: update_step_def getitem_def)
    qed
  qed
qed

subsection \<open>Batches of an epoch\<close>

lemma concat_minibatches:
  "concat (map (minibatch_at xs bs) [0..<k]) = take (k * bs) xs"
proof (induction k)
  case 0 then show ?case by simp
next
  case (Suc k)
  have "take (k * bs) xs @ take bs (drop (k * bs) xs) = take (k * bs + bs) xs"
    by (simp add: take_add)
  with Suc show ?case by (simp add: minibatch_at_def iloc_def add.commute)
qed

lemma ceiling_batches_cover:
  assumes "0 < bs"
  shows "len \<le> nat \<lceil>real len / real_of_int bs\<rceil> * nat bs"
proof -
  let ?c = "\<lceil>real len / real_of_int bs\<rceil>"
  have "0 \<le> real len / real_of_int bs" using assms by simp
  then have c0: "0 \<le> ?c" by (simp add: zero_le_ceiling order.strict_trans1[of "-1" 0])
  have a: "real len / real_of_int bs \<le> real_of_int ?c" by (rule le_of_int_ceiling)
  have b: "0 < real_of_int bs" using assms by simp
  have "real len = real len / real_of_int bs * real_of_int bs" using b by simp
  also have "\<dots> \<le> real_of_int ?c * real_of_int bs"
    using a b by (intro mult_right_mono) (auto simp del: le_of_int_ceiling)
  finally have "real len \<le> real_of_int ?c * real_of_int bs" .
  then have "int len \<le> ?c * bs" by (metis of_int_le_iff of_int_mult of_int_of_nat_eq)
  moreover have "int (nat ?c * nat bs) = ?c * bs" using c0 assms by simp
  ultimately show ?thesis by linarith
qed

lemma run_loop_map: "run_loop body (map f xs) st = run_loop (\<lambda>i. body (f i)) xs st"
  by (induction xs arbitrary: st) (auto split: prod.splits option.splits)

lemma train_epoch_over_minibatches:
  "train_epoch cg lr bs ratings test_ratings nb epoch st =
     run_loop (\<lambda>(idx, mb). batch_step cg lr test_ratings epoch idx mb)
       (zip [0..<nat nb] (minibatches ratings bs nb)) st"
proof -
  have "zip [0..<nat nb] (minibatches ratings bs nb)
          = map (\<lambda>idx. (idx, minibatch_at ratings (nat bs) idx)) [0..<nat nb]"
    unfolding minibatches_def by (simp add: zip_map2 zip_same_conv_map)
  then show ?thesis by (simp add: train_epoch_def run_loop_map)
qed

lemma minibatches_cover:
  assumes "0 < bs" and "num_batches (length ratings) bs = Inr nb"
  shows "concat (minibatches ratings bs nb) = ratings"
proof -
  from assms have nb: "nb = \<lceil>real (length ratings) / real_of_int bs\<rceil>"
    by (auto simp: num_batches_def)
  have "length ratings \<le> nat nb * nat bs"
    unfolding nb using assms(1) by (rule ceiling_batches_cover)
  then show ?thesis by (simp add: minibatches_def concat_minibatches)
qed

lemma sqrt_squares: "sqrt 16 = 4" "sqrt 25 = 5"
  using real_sqrt_abs[of 4] real_sqrt_abs[of 5] by simp_all

subsection \<open>Recommendation and precision\<close>

lemma length_intersect1d: "length (intersect1d a b) = card (set a \<inter> set b)"
proof -
  have "set (filter (\<lambda>x. x \<in> set b) a) = set a \<inter> set b" by auto
  then show ?thesis
    by (simp add: intersect1d_def length_remdups_card_conv del: set_filter)
qed

lemma collect_take:
  "int (length acc) < N \<Longrightarrow> collect N ps acc = take (nat N) (acc @ ps)"
proof (induction ps arbitrary: acc)
  case Nil then show ?case by simp
next
  case (Cons p ps)
  show ?case
  proof (cases "int (length (acc @ [p])) = N")
    case True
    then have "nat N = length (acc @ [p])" by simp
    then have "take (nat N) (acc @ p # ps) = acc @ [p]" by simp
    with True show ?thesis by (simp add: Let_def)
  next
    case False
    with Cons.prems have "int (length (acc @ [p])) < N" by simp
    from Cons.IH[OF this] False show ?thesis by (simp add: Let_def)
  qed
qed

lemma collect_all:
  "N \<le> int (length acc) \<Longrightarrow> collect N ps acc = acc @ ps"
  by (induction ps arbitrary: acc) (auto simp: Let_def)

lemma get_recommendations_length:
  assumes "get_recommendations gp usr N rkp = Inr recs" and "1 \<le> N"
  shows "int (length recs) \<le> N"
proof -
  from assms(1) obtain ps where "recs = collect N ps []"
    by (auto simp: get_recommendations_def split: sum.splits)
  with assms(2) show ?thesis by (simp add: collect_take)
qed

lemma distinct_map_insort_key:
  "distinct (map h (insort_key g x xs)) \<longleftrightarrow> h x \<notin> h ` set xs \<and> distinct (map h xs)"
  by (induction xs) (auto simp: set_insort_key)

lemma distinct_map_sort_key: "distinct (map h (sort_key g xs)) \<longleftrightarrow> distinct (map h xs)"
  by (induction xs) (auto simp: distinct_map_insort_key)

lemma upto_in_range: "\<not> list_ex (\<lambda>i. i < 1 \<or> n < i) [1..n]"
  by (simp add: list_ex_iff)

lemma default_prediction_True:
  assumes "default_prediction user_ratings st usr True = Inr preds"
  shows "set (map fst preds)
           = {i. 1 \<le> i \<and> i \<le> int (length (item_factors st)) \<and>
                 i \<notin> set (known_positives user_ratings usr)}"
    and "distinct (map fst preds)"
    and "length preds
           = length (filter (\<lambda>i. i \<notin> set (known_positives user_ratings usr))
                       [1..int (length (item_factors st))])"
proof -
  let ?kept = "filter (\<lambda>i. i \<notin> set (known_positives user_ratings usr)) [1..int (length (item_factors st))]"
  let ?ps = "map (\<lambda>i. (i, row_dot (user_factors st ! nat (usr - 1)) (item_factors st ! nat (i - 1)))) ?kept"
  from assms have p: "preds = sort_key (\<lambda>(i, p). (- p, i)) ?ps"
    by (auto simp: default_prediction_def get_prediction_def Let_def split: if_splits)
  have m: "map fst ?ps = ?kept" by (simp add: comp_def)
  from p m show "set (map fst preds)
           = {i. 1 \<le> i \<and> i \<le> int (length (item_factors st)) \<and>
                 i \<notin> set (known_positives user_ratings usr)}"
    by (auto simp: image_iff)
  have "distinct ?kept" by simp
  with p m show "distinct (map fst preds)"
    by (simp only: distinct_map_sort_key)
  from p show "length preds = length ?kept" by simp
qed

lemma default_prediction_total:
  assumes "1 \<le> usr" and "usr \<le> int (length (user_factors st))"
  shows "\<exists>preds. default_prediction user_ratings st usr rkp = Inr preds"
  using assms upto_in_range[of "int (length (item_factors st))"]
  by (simp add: default_prediction_def get_prediction_def Let_def)

subsection \<open>The precision loop\<close>

lemma update_values: "snd ` set (AList.update k v al) \<subseteq> insert v (snd ` set al)"
  by (induction al) auto

lemma fromkeys_values: "snd ` set (foldl (\<lambda>d u. AList.update u None d) d0 users) \<subseteq> insert None (snd ` set d0)"
proof (induction users arbitrary: d0)
  case Nil then show ?case by auto
next
  case (Cons u users)
  have "snd ` set (foldl (\<lambda>d u. AList.update u None d) (AList.update u None d0) users)
          \<subseteq> insert None (snd ` set (AList.update u None d0))"
    by (rule Cons.IH)
  also have "\<dots> \<subseteq> insert None (snd ` set d0)"
    using update_values[of u None d0] by auto
  finally show ?case by simp
qed

lemma map_filter_all_None: "snd ` set al \<subseteq> {None} \<Longrightarrow> List.map_filter snd al = []"
  by (induction al) (auto simp: List.map_filter_simps)

lemma fromkeys_no_values: "List.map_filter snd (fromkeys users) = []"
proof -
  have "snd ` set (fromkeys users) \<subseteq> {None}"
    using fromkeys_values[of "[]" users] by (simp add: fromkeys_def)
  then show ?thesis by (rule map_filter_all_None)
qed

lemma fromkeys_no_Some: "(k, Some v) \<notin> set (fromkeys users)"
proof
  assume "(k, Some v) \<in> set (fromkeys users)"
  then have "Some v \<in> snd ` set (fromkeys users)" by force
  moreover have "snd ` set (fromkeys users) \<subseteq> {None}"
    using fromkeys_values[of "[]" users] by (simp add: fromkeys_def)
  ultimately show False by auto
qed

lemma update_adds_value:
  assumes "\<forall>w. (k, Some w) \<notin> set al"
  shows "sum_list (List.map_filter snd (AList.update k (Some v) al))
           = sum_list (List.map_filter snd al) + (v::real) \<and>
         length (List.map_filter snd (AList.update k (Some v) al))
           = Suc (length (List.map_filter snd al))"
  using assms
proof (induction al)
  case Nil then show ?case by (simp add: List.map_filter_simps)
next
  case (Cons p al)
  obtain k' w' where p: "p = (k', w')" by (cases p)
  show ?case
  proof (cases "k' = k")
    case True
    with Cons.prems p have "w' = None" by (cases w') auto
    with True p show ?thesis by (simp add: List.map_filter_simps)
  next
    case False
    from Cons.prems have "\<forall>w. (k, Some w) \<notin> set al" by auto
    from Cons.IH[OF this] False p show ?thesis
      by (cases w') (simp_all add: List.map_filter_simps)
  qed
qed

lemma update_other_key:
  "k' \<noteq> k \<Longrightarrow> (k', w) \<in> set (AList.update k v al) \<longleftrightarrow> (k', w) \<in> set al"
  by (induction al) auto

lemma precision_loop_values:
  assumes "precision_loop gp N ps prec = Inr prec'"
    and "distinct (map fst ps)"
    and "\<forall>u \<in> fst ` set ps. \<forall>w. (u, Some w) \<notin> set prec"
  shows "sum_list (List.map_filter snd prec')
           = sum_list (List.map_filter snd prec) + sum_list (map (user_precision gp N) ps) \<and>
         length (List.map_filter snd prec') = length (List.map_filter snd prec) + length ps"
  using assms
proof (induction ps arbitrary: prec)
  case Nil then show ?case by simp
next
  case (Cons p ps)
  obtain u rel where p: "p = (u, rel)" by (cases p)
  from Cons.prems(1) p obtain recs where
    recs: "get_recommendations gp u N True = Inr recs" and N: "N \<noteq> 0"
    and rest: "precision_loop gp N ps
                 (AList.update u (Some (precision_at_N (map fst recs) rel N)) prec) = Inr prec'"
    by (auto split: sum.splits if_splits)
  let ?v = "precision_at_N (map fst recs) rel N"
  let ?prec1 = "AList.update u (Some ?v) prec"
  have v: "user_precision gp N p = ?v" by (simp add: user_precision_def p recs)
  from Cons.prems(3) p have "\<forall>w. (u, Some w) \<notin> set prec" by simp
  note step = update_adds_value[OF this, of ?v]
  have d: "distinct (map fst ps)" using Cons.prems(2) by simp
  have "\<forall>u' \<in> fst ` set ps. \<forall>w. (u', Some w) \<notin> set ?prec1"
  proof (intro ballI allI)
    fix u' w assume u': "u' \<in> fst ` set ps"
    with Cons.prems(2) p have "u' \<noteq> u" by auto
    moreover from u' Cons.prems(3) have "(u', Some w) \<notin> set prec" by auto
    ultimately show "(u', Some w) \<notin> set ?prec1" by (simp add: update_other_key)
  qed
  from Cons.IH[OF rest d this] step v show ?case by simp
qed

lemma np_mean_sum_length:
  "length xs = length ys \<Longrightarrow> sum_list xs = sum_list ys \<Longrightarrow> np_mean xs = np_mean ys"
  by (cases xs; cases ys) (auto simp: np_mean_def)

lemma distinct_relevant_users: "distinct (map fst (get_relevant_items test_ratings))"
  by (simp add: get_relevant_items_def comp_def)

lemma evaluation_mean:
  assumes "evaluation gp data_users test_ratings N = Inr r"
  shows "r = np_mean (map (user_precision gp N) (get_relevant_items test_ratings))"
proof -
  from assms obtain prec' where
    loop: "precision_loop gp N (get_relevant_items test_ratings) (fromkeys data_users) = Inr prec'"
    and r: "r = mean_precision prec'"
    by (auto simp: evaluation_def split: sum.splits)
  have "\<forall>u \<in> fst ` set (get_relevant_items test_ratings). \<forall>w. (u, Some w) \<notin> set (fromkeys data_users)"
    by (simp add: fromkeys_no_Some)
  from precision_loop_values[OF loop distinct_relevant_users this]
  have "sum_list (List.map_filter snd prec')
          = sum_list (map (user_precision gp N) (get_relevant_items test_ratings))"
    and "length (List.map_filter snd prec')
          = length (map (user_precision gp N) (get_relevant_items test_ratings))"
    by (simp_all add: fromkeys_no_values)
  then show ?thesis unfolding r mean_precision_def by (intro np_mean_sum_length) simp_all
qed

lemma precision_loop_total:
  assumes "\<forall>u \<in> fst ` set ps. \<exists>preds. gp u True = Inr preds" and "N \<noteq> 0"
  shows "\<exists>prec'. precision_loop gp N ps prec = Inr prec'"
  using assms(1)
proof (induction ps arbitrary: prec)
  case Nil then show ?case by simp
next
  case (Cons p ps)
  obtain u rel where p: "p = (u, rel)" by (cases p)
  have "u \<in> fst ` set (p # ps)" using p by simp
  with Cons.prems obtain preds where "gp u True = Inr preds" by blast
  then have r: "get_recommendations gp u N True = Inr (collect N preds [])"
    by (simp add: get_recommendations_def)
  from Cons.prems have "\<forall>u \<in> fst ` set ps. \<exists>preds. gp u True = Inr preds" by simp
  from Cons.IH[OF this] obtain prec' where
    "precision_loop gp N ps (AList.update u (Some (precision_at_N (map fst (collect N preds [])) rel N)) prec) = Inr prec'"
    by blast
  with r assms(2) p show ?case by simp
qed

lemma relevant_nonempty: "test_ratings \<noteq> [] \<Longrightarrow> get_relevant_items test_ratings \<noteq> []"
proof -
  assume "test_ratings \<noteq> []"
  then have "set (sort (remdups (map user test_ratings))) \<noteq> {}" by simp
  then have "sort (remdups (map user test_ratings)) \<noteq> []" by (metis set_empty)
  then show ?thesis by (simp add: get_relevant_items_def)
qed

lemma relevant_users: "fst ` set (get_relevant_items test_ratings) = user ` set test_ratings"
proof -
  have "map fst (get_relevant_items test_ratings) = sort (remdups (map user test_ratings))"
    by (simp add: get_relevant_items_def comp_def)
  then have "set (map fst (get_relevant_items test_ratings)) = set (map user test_ratings)"
    by simp
  then show ?thesis by simp
qed

lemma first_relevant:
  assumes "test_ratings \<noteq> []"
  shows "\<exists>u rel rest. get_relevant_items test_ratings = (u, rel) # rest \<and> u \<in> user ` set test_ratings"
proof -
  from assms have "get_relevant_items test_ratings \<noteq> []" by (rule relevant_nonempty)
  then obtain p rest where g: "get_relevant_items test_ratings = p # rest"
    by (cases "get_relevant_items test_ratings") auto
  obtain u rel where p: "p = (u, rel)" by (cases p)
  from g p have "u \<in> fst ` set (get_relevant_items test_ratings)" by simp
  then have "u \<in> user ` set test_ratings" by (simp only: relevant_users)
  with g p show ?thesis by blast
qed

lemma evaluation_zero_raises:
  assumes "test_ratings \<noteq> []"
  shows "\<exists>e. evaluation gp data_users test_ratings 0 = Inl e"
proof -
  from first_relevant[OF assms] obtain u rel rest where
    g: "get_relevant_items test_ratings = (u, rel) # rest" by blast
  show ?thesis
  proof (cases "get_recommendations gp u 0 True")
    case (Inl e) with g show ?thesis by (simp add: evaluation_def)
  next
    case (Inr recs) with g show ?thesis by (simp add: evaluation_def)
  qed
qed

lemma evaluation_zero_division:
  assumes "test_ratings \<noteq> []"
    and "\<forall>r \<in> set test_ratings. \<exists>preds. gp (user r) True = Inr preds"
  shows "evaluation gp data_users test_ratings 0 = Inl ZeroDivisionError"
proof -
  from first_relevant[OF assms(1)] obtain u rel rest where
    g: "get_relevant_items test_ratings = (u, rel) # rest" and u: "u \<in> user ` set test_ratings"
    by blast
  from u assms(2) obtain preds where "gp u True = Inr preds" by auto
  then have "get_recommendations gp u 0 True = Inr (collect 0 preds [])"
    by (simp add: get_recommendations_def)
  with g show ?thesis by (simp add: evaluation_def)
qed

lemma evaluation_returns:
  assumes "N \<noteq> 0"
    and "\<forall>r \<in> set test_ratings. \<exists>preds. gp (user r) True = Inr preds"
  shows "\<exists>r. evaluation gp data_users test_ratings N = Inr r"
proof -
  have users: "\<forall>u \<in> fst ` set (get_relevant_items test_ratings). \<exists>preds. gp u True = Inr preds"
    unfolding relevant_users using assms(2) by auto
  have "\<exists>prec'. precision_loop gp N (get_relevant_items test_ratings) (fromkeys data_users) = Inr prec'"
    using users assms(1) by (rule precision_loop_total)
  then obtain prec' where
    "precision_loop gp N (get_relevant_items test_ratings) (fromkeys data_users) = Inr prec'"
    by blast
  then show ?thesis by (simp add: evaluation_def)
qed

subsection \<open>Learning rate zero in float64\<close>

lemma fmul_zero_finite: "is_finite g \<Longrightarrow> is_zero (fmul rnd (Zero False) g)"
  by (cases g) auto

lemma fsub_zero: "is_zero z \<Longrightarrow> x \<noteq> Zero True \<Longrightarrow> fsub rnd x z = x"
  by (cases z; cases x) (auto simp: fsub_def)

lemma sub_zero_row64:
  "length r = length d \<Longrightarrow> \<forall>z \<in> set d. is_zero z \<Longrightarrow> \<forall>x \<in> set r. x \<noteq> Zero True \<Longrightarrow>
     map2 (fsub rnd) r d = r"
  by (induction r d rule: list_induct2) (auto simp: fsub_zero)

lemma broadcast_axis_Some:
  "broadcast_axis k D = Some D' \<Longrightarrow> length D' = k \<and> set D' \<subseteq> set D"
  by (cases D) (auto simp: broadcast_axis_def split: if_splits)

lemma broadcast_cols_zero:
  assumes "broadcast_cols tmp D = Some D'"
    and "\<forall>d \<in> set D. \<forall>z \<in> set d. is_zero z"
    and "\<forall>r \<in> set tmp. \<forall>x \<in> set r. x \<noteq> Zero True"
  shows "map2 (map2 (fsub rnd)) tmp D' = tmp"
  using assms
proof (induction tmp D arbitrary: D' rule: broadcast_cols.induct)
  case 1
  then show ?case by simp
next
  case (2 r tmp d D)
  from "2.prems"(1) obtain d' D1 where
    d': "broadcast_axis (length r) d = Some d'" and D1: "broadcast_cols tmp D = Some D1"
    and D': "D' = d' # D1"
    by (auto split: option.splits)
  from broadcast_axis_Some[OF d'] have len: "length r = length d'" and sub: "set d' \<subseteq> set d"
    by simp_all
  from sub "2.prems"(2) have z: "\<forall>z \<in> set d'. is_zero z" by auto
  from "2.prems"(3) have nz: "\<forall>x \<in> set r. x \<noteq> Zero True" by simp
  have row: "map2 (fsub rnd) r d' = r" using len z nz by (rule sub_zero_row64)
  have rest: "map2 (map2 (fsub rnd)) tmp D1 = tmp"
    using D1 "2.prems"(2,3) by (intro "2.IH"[OF d']) auto
  from row rest D' show ?case by simp
qed simp_all

lemma broadcast_to_zero:
  assumes "broadcast_to tmp D = Some D'"
    and "\<forall>d \<in> set D. \<forall>z \<in> set d. is_zero z"
    and "\<forall>r \<in> set tmp. \<forall>x \<in> set r. x \<noteq> Zero True"
  shows "map2 (map2 (fsub rnd)) tmp D' = tmp"
proof -
  from assms(1) obtain D1 where D1: "broadcast_axis (length tmp) D = Some D1"
    and c: "broadcast_cols tmp D1 = Some D'"
    by (auto simp: broadcast_to_def split: option.splits)
  from broadcast_axis_Some[OF D1] assms(2) have z: "\<forall>d \<in> set D1. \<forall>z \<in> set d. is_zero z" by auto
  from c z assms(3) show ?thesis by (rule broadcast_cols_zero)
qed

lemma setitem64_same: "setitem64 A js (map (\<lambda>j. A ! j) js) = A"
proof -
  have "foldl (\<lambda>B (j, r). B[j := r]) A (zip js (map (\<lambda>j. A ! j) js)) = A"
    by (induction js) auto
  then show ?thesis by (simp add: setitem64_def)
qed

lemma scale64_zero: "finite_matrix G \<Longrightarrow> \<forall>d \<in> set (scale64 rnd (Zero False) G). \<forall>z \<in> set d. is_zero z"
  by (auto simp: scale64_def finite_matrix_def list_all_iff fmul_zero_finite)

lemma isub64_zero:
  assumes "isub64 rnd A idx (scale64 rnd (Zero False) G) = Inr A'"
    and "finite_matrix G" and "no_negative_zero A"
  shows "A' = A"
proof -
  from assms(1) obtain js D' where js: "np_indices (length A) idx = Inr js"
    and b: "broadcast_to (map (\<lambda>j. A ! j) js) (scale64 rnd (Zero False) G) = Some D'"
    and A': "A' = setitem64 A js (map2 (map2 (fsub rnd)) (map (\<lambda>j. A ! j) js) D')"
    by (auto simp: isub64_def Let_def split: sum.splits option.splits)
  have "\<forall>r \<in> set (map (\<lambda>j. A ! j) js). \<forall>x \<in> set r. x \<noteq> Zero True"
  proof (intro ballI)
    fix r x assume "r \<in> set (map (\<lambda>j. A ! j) js)" and x: "x \<in> set r"
    then obtain j where "j \<in> set js" and r: "r = A ! j" by auto
    with js have "j < length A" using np_indices_bound by blast
    with r have "r \<in> set A" by simp
    with assms(3) x show "x \<noteq> Zero True" by (auto simp: no_negative_zero_def list_all_iff)
  qed
  note nz = this
  from b scale64_zero[OF assms(2)] nz
  have "map2 (map2 (fsub rnd)) (map (\<lambda>j. A ! j) js) D' = map (\<lambda>j. A ! j) js"
    by (rule broadcast_to_zero)
  with A' show ?thesis by (simp add: setitem64_same)
qed

lemma update_step64_zero:
  assumes "no_negative_zero (user_factors64 st)" and "no_negative_zero (item_factors64 st)"
    and "gradients_finite cg (user_factors64 st) (item_factors64 st) minibatch"
  shows "fst (update_step64 rnd cg (Zero False) minibatch st) = st"
proof -
  let ?uidx = "map (\<lambda>r. user64 r - 1) minibatch" and ?iidx = "map (\<lambda>r. item64 r - 1) minibatch"
  show ?thesis
  proof (cases "getitem64 (user_factors64 st) ?uidx")
    case Inl then show ?thesis by (simp add: update_step64_def)
  next
    case (Inr ue)
    show ?thesis
    proof (cases "getitem64 (item_factors64 st) ?iidx")
      case Inl with Inr show ?thesis by (simp add: update_step64_def)
    next
      case ie: (Inr ie)
      show ?thesis
      proof (cases "cg (map rating64 minibatch) ue ie")
        case Inl with Inr ie show ?thesis by (simp add: update_step64_def)
      next
        case g: (Inr grads)
        obtain ug ig where grads: "grads = (ug, ig)" by (cases grads)
        from assms(3) Inr ie g grads have fin: "finite_matrix ug" "finite_matrix ig"
          by (simp_all add: gradients_finite_def)
        show ?thesis
        proof (cases "isub64 rnd (user_factors64 st) ?uidx (scale64 rnd (Zero False) ug)")
          case Inl with Inr ie g grads show ?thesis by (simp add: update_step64_def)
        next
          case U: (Inr U')
          from isub64_zero[OF U fin(1) assms(1)] have U': "U' = user_factors64 st" .
          show ?thesis
          proof (cases "isub64 rnd (item_factors64 st) ?iidx (scale64 rnd (Zero False) ig)")
            case Inl with Inr ie g grads U U' show ?thesis by (simp add: update_step64_def)
          next
            case V: (Inr V')
            from isub64_zero[OF V fin(2) assms(2)] have "V' = item_factors64 st" .
            with Inr ie g grads U U' V show ?thesis by (simp add: update_step64_def)
          qed
        qed
      qed
    qed
  qed
qed

lemma monitor64_state: "fst (monitor64 test_ratings st) = st"
  by (simp add: monitor64_def split: sum.splits)

lemma batch_step64_zero:
  assumes "no_negative_zero (user_factors64 st)" and "no_negative_zero (item_factors64 st)"
    and "gradients_finite cg (user_factors64 st) (item_factors64 st) minibatch"
  shows "fst (batch_step64 rnd cg (Zero False) test_ratings idx minibatch st) = st"
proof -
  obtain s e where u: "update_step64 rnd cg (Zero False) minibatch st = (s, e)"
    by (cases "update_step64 rnd cg (Zero False) minibatch st")
  with update_step64_zero[OF assms, of rnd] have s: "s = st" by simp
  show ?thesis
    using u s monitor64_state[of test_ratings st]
    by (cases e) (simp_all add: batch_step64_def)
qed

lemma run_loop64_fixed:
  assumes "\<And>i. i \<in> set xs \<Longrightarrow> fst (body i st) = st"
  shows "fst (run_loop64 body xs st) = st"
  using assms
proof (induction xs)
  case Nil then show ?case by simp
next
  case (Cons i xs)
  obtain s e where b: "body i st = (s, e)" by (cases "body i st")
  with Cons.prems[of i] have s: "s = st" by simp
  have "fst (run_loop64 body xs st) = st" using Cons.prems by (intro Cons.IH) simp
  with b s show ?case by (cases e) simp_all
qed

section \<open>The claims\<close>

subsection \<open>Repeated ids in a batch\<close>

text \<open>
  C1. The claim: when a batch holds the same user (or item) id more than once, the factor
  update leaves on that row the sum of all the per-instance deltas, as if each delta had
  been applied on its own in sequence. The update of the notebook is
  \<open>user_factors[ids - 1] -= learning_rate * user_grads\<close>, which assigns one row per batch
  entry computed from the old row; of two entries with the same id the second assignment
  stays. At \<open>dup_batch\<close> (user 1 twice, learning rate 1) the per-instance user gradients are
  \<open>-4\<close> and \<open>-12\<close>; the loop's step leaves \<open>1 + 12 = 13\<close> on the row of user 1, while
  applying the two deltas in sequence gives \<open>1 + 4 + 12 = 17\<close>.
\<close>

theorem repeated_id_update_keeps_last_delta:
  "update_step compute_gradients 1 dup_batch dup_state
     = ((dup_state\<lparr>user_factors := [[13]], item_factors := [[5], [8]]\<rparr>, None),
        [[1], [1]], [[1], [2]]) \<and>
   compute_gradients (map rating dup_batch) [[1], [1]] [[1], [2]]
     = Inr ([[- 4], [- 12]], [[- 4], [- 6]]) \<and>
   isub [[1]] [0] (scale 1 [[- 4]]) = Inr [[5]] \<and>
   isub [[5]] [0] (scale 1 [[- 12]]) = Inr [[17]]"
  by (simp add: step_defs dup_state_def dup_batch_def)

subsection \<open>The held-out RMSE of the monitoring block\<close>

text \<open>
  C2. The claim: the held-out RMSE of a monitoring tick reads the item factor rows at the
  test ratings' item ids. The monitoring block reads \<open>item_factors\<close> at
  \<open>test_ratings['user'].values - 1\<close>. At \<open>swap_state\<close> with the one held-out rating
  (user 2, item 1, rating 1) the block records the test RMSE 1, from the row of item 2;
  with the row of item 1 the RMSE is 0.
\<close>

theorem test_rmse_reads_item_rows_at_user_ids:
  "monitor swap_test 0 [1] [[1]] [[1]] swap_state
     = (swap_state\<lparr>rmse_trace := [Some 0], rmse_test_trace := [Some 1],
                    printed := [(0, Some 0, Some 1)]\<rparr>, None) \<and>
   getitem (user_factors swap_state) (map (\<lambda>r. user r - 1) swap_test) = Inr [[1]] \<and>
   getitem (item_factors swap_state) (map (\<lambda>r. item r - 1) swap_test) = Inr [[1]] \<and>
   get_rmse (map rating swap_test) [[1]] [[1]] = Some 0"
  by (simp add: monitor_def get_rmse_def np_mean_def step_defs swap_state_def swap_test_def)

subsection \<open>Ids outside the matrices\<close>

text \<open>
  C4, as the claim states it, fails: the claim has every id outside \<open>[1, m]\<close> raise, id 0
  included. The loop indexes with \<open>id - 1\<close>, and numpy takes the index \<open>-1\<close> for the last
  row: a batch with user id 0 updates the row of user 2 and raises nothing.
\<close>

theorem id_zero_resolves_to_last_row:
  "update_step compute_gradients 1 [\<lparr>user = 0, item = 1, rating = 1\<rparr>] wrap_state
     = ((wrap_state\<lparr>user_factors := [[1], [0]], item_factors := [[- 3]]\<rparr>, None), [[2]], [[1]])"
  by (simp add: step_defs wrap_state_def)

text \<open>
  C4, amended: a rating whose user id is above \<open>m\<close> or at most \<open>-m\<close> (item id above \<open>n\<close>
  or at most \<open>-n\<close>) makes the gather, the update and so the whole step raise IndexError,
  and the step writes no row. An id in \<open>[1, m]\<close> addresses row \<open>id - 1\<close>. An id in
  \<open>(-m, 0]\<close> is not rejected: \<open>id - 1\<close> is a negative index and addresses row
  \<open>id - 1 + m\<close>.
\<close>

theorem out_of_range_id_raises:
  assumes "r \<in> set minibatch"
    and "int (length (user_factors st)) < user r \<or> user r \<le> - int (length (user_factors st)) \<or>
         int (length (item_factors st)) < item r \<or> item r \<le> - int (length (item_factors st))"
  shows "fst (update_step cg learning_rate minibatch st) = (st, Some IndexError) \<and>
         (\<forall>A ids D uid. uid \<in> set ids \<and> (int (length A) < uid \<or> uid \<le> - int (length A)) \<longrightarrow>
            getitem A (map (\<lambda>u. u - 1) ids) = Inl IndexError \<and>
            isub A (map (\<lambda>u. u - 1) ids) D = Inl IndexError) \<and>
         (\<forall>A uid. 1 \<le> uid \<and> uid \<le> int (length A) \<longrightarrow>
            getitem A [uid - 1] = Inr [A ! nat (uid - 1)]) \<and>
         (\<forall>A uid. - int (length A) < uid \<and> uid \<le> 0 \<longrightarrow>
            getitem A [uid - 1] = Inr [A ! nat (uid - 1 + int (length A))])"
proof -
  have a: "fst (update_step cg learning_rate minibatch st) = (st, Some IndexError)"
    using update_step_index_error[OF assms] .
  have b: "getitem A (map (\<lambda>u. u - 1) ids) = Inl IndexError \<and>
           isub A (map (\<lambda>u. u - 1) ids) D = Inl IndexError"
    if "uid \<in> set ids" and "int (length A) < uid \<or> uid \<le> - int (length A)" for A ids D uid
  proof -
    from that(1) have "uid - 1 \<in> set (map (\<lambda>u. u - 1) ids)" by auto
    with np_index_out_of_range[OF that(2)]
    have "np_indices (length A) (map (\<lambda>u. u - 1) ids) = Inl IndexError"
      using np_indices_fail by blast
    then show ?thesis by (simp add: getitem_def isub_def)
  qed
  have c: "getitem A [uid - 1] = Inr [A ! nat (uid - 1)]"
    if "1 \<le> uid" and "uid \<le> int (length A)" for A :: matrix and uid
    using that by (simp add: getitem_def np_index_def)
  have d: "getitem A [uid - 1] = Inr [A ! nat (uid - 1 + int (length A))]"
    if "- int (length A) < uid" and "uid \<le> 0" for A :: matrix and uid
    using that by (simp add: getitem_def np_index_def)
  from a b c d show ?thesis by blast
qed

theorem out_of_range_id_raises_witness:
  "fst (update_step compute_gradients 1 [\<lparr>user = 3, item = 1, rating = 1\<rparr>] wrap_state)
     = (wrap_state, Some IndexError) \<and>
   getitem [[1], [2]] [3 - 1] = Inl IndexError \<and>
   getitem [[1], [2]] [2 - 1] = Inr [[2]] \<and>
   getitem [[1], [2]] [- 1 - 1] = Inr [[1]]"
proof -
  have m: "\<lparr>user = 3, item = 1, rating = 1\<rparr> \<in> set [\<lparr>user = 3, item = 1, rating = 1\<rparr>]"
    by simp
  have h: "int (length (user_factors wrap_state)) < user \<lparr>user = 3, item = 1, rating = 1\<rparr> \<or>
           user \<lparr>user = 3, item = 1, rating = 1\<rparr> \<le> - int (length (user_factors wrap_state)) \<or>
           int (length (item_factors wrap_state)) < item \<lparr>user = 3, item = 1, rating = 1\<rparr> \<or>
           item \<lparr>user = 3, item = 1, rating = 1\<rparr> \<le> - int (length (item_factors wrap_state))"
    by (simp add: wrap_state_def)
  note t = out_of_range_id_raises[OF m h, of compute_gradients 1]
  from t have 1: "fst (update_step compute_gradients 1 [\<lparr>user = 3, item = 1, rating = 1\<rparr>] wrap_state)
     = (wrap_state, Some IndexError)" by blast
  from t have "(3::int) \<in> set [3] \<and> (int (length [[1::real], [2]]) < 3 \<or> 3 \<le> - int (length [[1::real], [2]])) \<longrightarrow>
            getitem [[1], [2]] (map (\<lambda>u. u - 1) [3]) = Inl IndexError" by blast
  then have 2: "getitem [[1], [2]] [3 - 1] = Inl IndexError" by simp
  from t have "(1::int) \<le> 2 \<and> 2 \<le> int (length [[1::real], [2]]) \<longrightarrow>
            getitem [[1], [2]] [2 - 1] = Inr [[[1], [2]] ! nat (2 - 1)]" by blast
  then have 3: "getitem [[1], [2]] [2 - 1] = Inr [[2]]" by simp
  from t have "- int (length [[1::real], [2]]) < - 1 \<and> (- 1::int) \<le> 0 \<longrightarrow>
            getitem [[1], [2]] [- 1 - 1] = Inr [[[1], [2]] ! nat (- 1 - 1 + int (length [[1::real], [2]]))]" by blast
  then have 4: "getitem [[1], [2]] [- 1 - 1] = Inr [[1]]" by simp
  from 1 2 3 4 show ?thesis by blast
qed

subsection \<open>Learning rate zero\<close>

text \<open>
  C8, as the claim states it, fails in float64: \<open>0 * g\<close> is nan for a gradient \<open>g\<close> that
  is nan or infinite, and \<open>-0.0 - (-0.0)\<close> is \<open>+0.0\<close>. With learning rate 0 a nan rating
  makes the rows of its user and item nan, and a user factor \<open>-0.0\<close> with a negative
  gradient becomes \<open>+0.0\<close>.
\<close>

theorem non_finite_gradient_or_negative_zero_changes_rows:
  "training64 exact_rnd (compute_gradients64 exact_rnd) (Zero False) 1 1 nan_ratings64 []
       \<lparr>user_factors64 = [[Fin 1]], item_factors64 = [[Fin 2]]\<rparr>
     = (\<lparr>user_factors64 = [[NaN]], item_factors64 = [[NaN]]\<rparr>, None) \<and>
   training64 exact_rnd (compute_gradients64 exact_rnd) (Zero False) 1 1
       [\<lparr>user64 = 1, item64 = 1, rating64 = Fin 1\<rparr>] [] negative_zero_state64
     = (\<lparr>user_factors64 = [[Zero False]], item_factors64 = [[Fin 1]]\<rparr>, None)"
  by (simp add: train64_defs nan_ratings64_def negative_zero_state64_def)

text \<open>
  C8, amended: with \<open>learning_rate = 0\<close>, when no factor entry is \<open>-0.0\<close> and every
  gradient that \<open>compute_gradients\<close> returns for a batch of the run is finite, the training
  loop, for any number of epochs, any batch size and rounding, and whether or not it stops
  with an exception, ends with both factor matrices bit for bit as they were.
\<close>

theorem zero_learning_rate_keeps_factors:
  assumes "no_negative_zero (user_factors64 st)" and "no_negative_zero (item_factors64 st)"
    and "\<forall>nb. num_batches (length ratings) batch_size = Inr nb \<longrightarrow>
           (\<forall>idx < nat nb. gradients_finite cg (user_factors64 st) (item_factors64 st)
                              (minibatch_at ratings (nat batch_size) idx))"
  shows "fst (training64 rnd cg (Zero False) batch_size epochs ratings test_ratings st) = st"
proof (cases "num_batches (length ratings) batch_size")
  case (Inl e)
  then show ?thesis by (simp add: training64_def)
next
  case (Inr nb)
  with assms(3) have fin: "\<And>idx. idx < nat nb \<Longrightarrow>
      gradients_finite cg (user_factors64 st) (item_factors64 st)
        (minibatch_at ratings (nat batch_size) idx)"
    by blast
  have epoch: "fst (train_epoch64 rnd cg (Zero False) batch_size ratings test_ratings nb epoch st) = st"
    for epoch
    unfolding train_epoch64_def
  proof (rule run_loop64_fixed)
    fix idx assume "idx \<in> set [0..<nat nb]"
    then have "idx < nat nb" by simp
    from batch_step64_zero[OF assms(1,2) fin[OF this]]
    show "fst (batch_step64 rnd cg (Zero False) test_ratings idx
                 (minibatch_at ratings (nat batch_size) idx) st) = st" .
  qed
  have "fst (run_loop64 (train_epoch64 rnd cg (Zero False) batch_size ratings test_ratings nb)
               [0..<nat epochs] st) = st"
    by (rule run_loop64_fixed) (rule epoch)
  with Inr show ?thesis by (simp add: training64_def)
qed

theorem zero_learning_rate_keeps_factors_witness:
  "training64 exact_rnd (compute_gradients64 exact_rnd) (Zero False) 1 2 ex_ratings64 [] ex_state64
     = (ex_state64, None) \<and>
   compute_gradients64 exact_rnd [Fin 1] [[Fin 1]] [[Fin 2]] = Inr ([[Fin 4]], [[Fin 2]]) \<and>
   training64 exact_rnd (compute_gradients64 exact_rnd) (Fin (1 / 4)) 1 2 ex_ratings64 [] ex_state64
     = (\<lparr>user_factors64 = [[Fin (15 / 4)]],
         item_factors64 = [[Fin (39 / 16)], [Fin (- 17 / 2)]]\<rparr>, None)"
proof -
  have nzu: "no_negative_zero (user_factors64 ex_state64)"
    and nzi: "no_negative_zero (item_factors64 ex_state64)"
    by (simp_all add: no_negative_zero_def ex_state64_def)
  have fin: "\<forall>nb. num_batches (length ex_ratings64) 1 = Inr nb \<longrightarrow>
           (\<forall>idx < nat nb. gradients_finite (compute_gradients64 exact_rnd)
                              (user_factors64 ex_state64) (item_factors64 ex_state64)
                              (minibatch_at ex_ratings64 (nat 1) idx))"
  proof (intro allI impI)
    fix nb idx assume "num_batches (length ex_ratings64) 1 = Inr nb" and "idx < nat nb"
    then have "idx = 0 \<or> idx = 1" by (auto simp: num_batches_def ex_ratings64_def)
    then show "gradients_finite (compute_gradients64 exact_rnd)
                 (user_factors64 ex_state64) (item_factors64 ex_state64)
                 (minibatch_at ex_ratings64 (nat 1) idx)"
      by (auto simp: gradients_finite_def finite_matrix_def train64_defs ex_ratings64_def
          ex_state64_def)
  qed
  from zero_learning_rate_keeps_factors[OF nzu nzi fin, of exact_rnd 2 "[]"]
  have keep: "fst (training64 exact_rnd (compute_gradients64 exact_rnd) (Zero False) 1 2
                     ex_ratings64 [] ex_state64) = ex_state64" .
  have run: "snd (training64 exact_rnd (compute_gradients64 exact_rnd) (Zero False) 1 2
                     ex_ratings64 [] ex_state64) = None"
    by (simp add: train64_defs ex_ratings64_def ex_state64_def)
  from keep run
  have a: "training64 exact_rnd (compute_gradients64 exact_rnd) (Zero False) 1 2 ex_ratings64 [] ex_state64
     = (ex_state64, None)" by (metis prod.collapse)
  have b: "compute_gradients64 exact_rnd [Fin 1] [[Fin 1]] [[Fin 2]] = Inr ([[Fin 4]], [[Fin 2]])"
    by (simp add: train64_defs)
  have c: "training64 exact_rnd (compute_gradients64 exact_rnd) (Fin (1 / 4)) 1 2 ex_ratings64 [] ex_state64
     = (\<lparr>user_factors64 = [[Fin (15 / 4)]],
         item_factors64 = [[Fin (39 / 16)], [Fin (- 17 / 2)]]\<rparr>, None)"
    by (simp add: train64_defs ex_ratings64_def ex_state64_def)
  show ?thesis by (intro conjI) (rule a b c)+
qed

subsection \<open>The rows a step writes\<close>

text \<open>
  C10. One minibatch step (whether or not it raises) keeps the number of rows of both
  matrices and, for the 1-based ids of the data, leaves every user row whose index is not
  \<open>user id - 1\<close> for a user id of the batch as it was, and every item row whose index is not
  \<open>item id - 1\<close> for an item id of the batch; for arbitrary ids the rows written are the
  ones numpy resolves \<open>id - 1\<close> to. The monitoring block leaves both matrices as they are.
\<close>

theorem minibatch_step_frame:
  assumes "update_step cg learning_rate minibatch st = ((st', err), user_embeds, item_embeds)"
  shows "length (user_factors st') = length (user_factors st) \<and>
         length (item_factors st') = length (item_factors st) \<and>
         ((\<forall>r \<in> set minibatch. 1 \<le> user r) \<longrightarrow>
            (\<forall>j. j \<notin> (\<lambda>r. nat (user r - 1)) ` set minibatch \<longrightarrow>
                 user_factors st' ! j = user_factors st ! j)) \<and>
         ((\<forall>r \<in> set minibatch. 1 \<le> item r) \<longrightarrow>
            (\<forall>j. j \<notin> (\<lambda>r. nat (item r - 1)) ` set minibatch \<longrightarrow>
                 item_factors st' ! j = item_factors st ! j)) \<and>
         (\<forall>j. (\<forall>r \<in> set minibatch. np_index (length (user_factors st)) (user r - 1) \<noteq> Inr j) \<longrightarrow>
              user_factors st' ! j = user_factors st ! j) \<and>
         (\<forall>j. (\<forall>r \<in> set minibatch. np_index (length (item_factors st)) (item r - 1) \<noteq> Inr j) \<longrightarrow>
              item_factors st' ! j = item_factors st ! j) \<and>
         (\<forall>test_ratings epoch rating_values ue ie s s' e.
            monitor test_ratings epoch rating_values ue ie s = (s', e) \<longrightarrow>
              user_factors s' = user_factors s \<and> item_factors s' = item_factors s)"
proof -
  have gen_u: "user_factors st' ! j = user_factors st ! j"
    if "\<forall>r \<in> set minibatch. np_index (length (user_factors st)) (user r - 1) \<noteq> Inr j" for j
    using update_step_user_frame[OF assms that] .
  have gen_i: "item_factors st' ! j = item_factors st ! j"
    if "\<forall>r \<in> set minibatch. np_index (length (item_factors st)) (item r - 1) \<noteq> Inr j" for j
    using update_step_item_frame[OF assms that] .
  have one_u: "user_factors st' ! j = user_factors st ! j"
    if "\<forall>r \<in> set minibatch. 1 \<le> user r" and "j \<notin> (\<lambda>r. nat (user r - 1)) ` set minibatch" for j
  proof (rule gen_u, rule ballI)
    fix r assume "r \<in> set minibatch"
    with that show "np_index (length (user_factors st)) (user r - 1) \<noteq> Inr j"
      using np_index_one_based by blast
  qed
  have one_i: "item_factors st' ! j = item_factors st ! j"
    if "\<forall>r \<in> set minibatch. 1 \<le> item r" and "j \<notin> (\<lambda>r. nat (item r - 1)) ` set minibatch" for j
  proof (rule gen_i, rule ballI)
    fix r assume "r \<in> set minibatch"
    with that show "np_index (length (item_factors st)) (item r - 1) \<noteq> Inr j"
      using np_index_one_based by blast
  qed
  from update_step_lengths[OF assms] gen_u gen_i one_u one_i monitor_factors
  show ?thesis by blast
qed

theorem minibatch_step_frame_witness:
  "update_step compute_gradients 1 [\<lparr>user = 2, item = 1, rating = 1\<rparr>] wrap_state
     = ((wrap_state\<lparr>user_factors := [[1], [0]], item_factors := [[- 3]]\<rparr>, None), [[2]], [[1]]) \<and>
   user_factors (wrap_state\<lparr>user_factors := [[1], [0]], item_factors := [[- 3]]\<rparr>) ! 0
     = user_factors wrap_state ! 0 \<and>
   monitor swap_test 0 [1] [[1]] [[1]] swap_state
     = (swap_state\<lparr>rmse_trace := [Some 0], rmse_test_trace := [Some 1],
                    printed := [(0, Some 0, Some 1)]\<rparr>, None) \<and>
   user_factors (swap_state\<lparr>rmse_trace := [Some 0], rmse_test_trace := [Some 1],
                    printed := [(0, Some 0, Some 1)]\<rparr>) = user_factors swap_state \<and>
   item_factors (swap_state\<lparr>rmse_trace := [Some 0], rmse_test_trace := [Some 1],
                    printed := [(0, Some 0, Some 1)]\<rparr>) = item_factors swap_state"
proof -
  have h: "update_step compute_gradients 1 [\<lparr>user = 2, item = 1, rating = 1\<rparr>] wrap_state
     = ((wrap_state\<lparr>user_factors := [[1], [0]], item_factors := [[- 3]]\<rparr>, None), [[2]], [[1]])"
    by (simp add: step_defs wrap_state_def)
  have ids: "\<forall>r \<in> set [\<lparr>user = 2, item = 1, rating = 1\<rparr>]. 1 \<le> user r" by simp
  have out: "(0::nat) \<notin> (\<lambda>r. nat (user r - 1)) ` set [\<lparr>user = 2, item = 1, rating = 1\<rparr>]" by simp
  have mon: "monitor swap_test 0 [1] [[1]] [[1]] swap_state
     = (swap_state\<lparr>rmse_trace := [Some 0], rmse_test_trace := [Some 1],
                    printed := [(0, Some 0, Some 1)]\<rparr>, None)"
    by (simp add: monitor_def get_rmse_def np_mean_def step_defs swap_state_def swap_test_def)
  note t = minibatch_step_frame[OF h]
  from t ids out
  have row: "user_factors (wrap_state\<lparr>user_factors := [[1], [0]], item_factors := [[- 3]]\<rparr>) ! 0
     = user_factors wrap_state ! 0" by blast
  from t mon
  have fac: "user_factors (swap_state\<lparr>rmse_trace := [Some 0], rmse_test_trace := [Some 1],
                    printed := [(0, Some 0, Some 1)]\<rparr>) = user_factors swap_state \<and>
             item_factors (swap_state\<lparr>rmse_trace := [Some 0], rmse_test_trace := [Some 1],
                    printed := [(0, Some 0, Some 1)]\<rparr>) = item_factors swap_state" by blast
  from h row mon fac show ?thesis by blast
qed

subsection \<open>Order of the batches\<close>

text \<open>
  C3, as the claim states it, fails: the claim has epoch \<open>e\<close> read the shuffle made from
  \<open>seed + e\<close>, so that different epochs read different orders. The notebook shuffles once,
  in the initialisation cell, with the seed itself, and the loop slices that one frame in
  every epoch. With the rotating shuffle, seed 1, batch size 1, learning rate 1/4 and two
  epochs over \<open>shared_user\<close>, the run ends with other factors and another trace than the
  training that reshuffles with \<open>seed + e\<close>: the second epoch reads the ratings in the order
  of the first.
\<close>

theorem every_epoch_reads_the_same_order:
  "fst (fit ex_seed_rng ex_normal rot_sample compute_gradients 1 1 2 1 (1 / 4) 1 2
          shared_user [] 5)
     = (\<lparr>user_factors = [[15 / 4]], item_factors = [[39 / 16], [- 17 / 2]],
         rmse_trace = [Some 1, Some 5], rmse_test_trace = [None, None],
         printed = [(0, Some 1, None), (1, Some 5, None)]\<rparr>, None) \<and>
   training_reshuffled rot_sample 1 compute_gradients (1 / 4) 1 2 shared_user []
       (fst (initialize ex_seed_rng ex_normal 1 1 2 1 5))
     = (\<lparr>user_factors = [[3 / 4]], item_factors = [[- 6], [3 / 2]],
         rmse_trace = [Some 1, Some 4], rmse_test_trace = [None, None],
         printed = [(0, Some 1, None), (1, Some 4, None)]\<rparr>, None) \<and>
   user_factors (fst (fst (fit ex_seed_rng ex_normal rot_sample compute_gradients 1 1 2 1 (1 / 4) 1 2
          shared_user [] 5)))
     \<noteq> user_factors (fst (training_reshuffled rot_sample 1 compute_gradients (1 / 4) 1 2
          shared_user [] (fst (initialize ex_seed_rng ex_normal 1 1 2 1 5))))"
proof -
  have a: "fst (fit ex_seed_rng ex_normal rot_sample compute_gradients 1 1 2 1 (1 / 4) 1 2
          shared_user [] 5)
     = (\<lparr>user_factors = [[15 / 4]], item_factors = [[39 / 16], [- 17 / 2]],
         rmse_trace = [Some 1, Some 5], rmse_test_trace = [None, None],
         printed = [(0, Some 1, None), (1, Some 5, None)]\<rparr>, None)"
    by (simp add: fit_def initialize_def train_defs shuffle_defs sqrt_squares)
  have b: "training_reshuffled rot_sample 1 compute_gradients (1 / 4) 1 2 shared_user []
       (fst (initialize ex_seed_rng ex_normal 1 1 2 1 5))
     = (\<lparr>user_factors = [[3 / 4]], item_factors = [[- 6], [3 / 2]],
         rmse_trace = [Some 1, Some 4], rmse_test_trace = [None, None],
         printed = [(0, Some 1, None), (1, Some 4, None)]\<rparr>, None)"
    by (simp add: training_reshuffled_def initialize_def train_defs shuffle_defs sqrt_squares)
  show ?thesis unfolding a b by simp
qed

text \<open>
  C3, amended: the training set is shuffled once, by \<open>sample\<close> with the configured seed,
  before the first epoch, and the run is the loop over the epochs in which every epoch
  \<open>e\<close> reads the same batches in the same order: batch \<open>idx\<close> is the slice of
  \<open>batch_size\<close> rows from row \<open>idx * batch_size\<close> of that one shuffle, and for a positive
  batch size the batches of an epoch put together are the whole shuffle. So two runs with
  the same seed read the same order, and so do two epochs of one run.
\<close>

theorem epochs_share_one_shuffle:
  "fst (fit seed_rng normal sample cg seed m n d learning_rate batch_size epochs
          train_ratings test_ratings g0)
     = (case num_batches (length (sample seed train_ratings)) batch_size of
          Inl e \<Rightarrow> (fst (initialize seed_rng normal seed m n d g0), Some e)
        | Inr nb \<Rightarrow>
            run_loop
              (\<lambda>epoch. run_loop (\<lambda>(idx, mb). batch_step cg learning_rate test_ratings epoch idx mb)
                          (zip [0..<nat nb] (minibatches (sample seed train_ratings) batch_size nb)))
              [0..<nat epochs] (fst (initialize seed_rng normal seed m n d g0))) \<and>
   (\<forall>nb. minibatches (sample seed train_ratings) batch_size nb
           = map (\<lambda>idx. take (nat batch_size)
                          (drop (idx * nat batch_size) (sample seed train_ratings)))
               [0..<nat nb]) \<and>
   (\<forall>nb. 0 < batch_size \<and> num_batches (length (sample seed train_ratings)) batch_size = Inr nb \<longrightarrow>
      concat (minibatches (sample seed train_ratings) batch_size nb) = sample seed train_ratings)"
proof (intro conjI allI impI)
  have te: "train_epoch cg learning_rate batch_size (sample seed train_ratings) test_ratings nb
          = (\<lambda>epoch. run_loop (\<lambda>(idx, mb). batch_step cg learning_rate test_ratings epoch idx mb)
               (zip [0..<nat nb] (minibatches (sample seed train_ratings) batch_size nb)))" for nb
    by (intro ext) (rule train_epoch_over_minibatches)
  have "fst (fit seed_rng normal sample cg seed m n d learning_rate batch_size epochs
          train_ratings test_ratings g0)
     = training cg learning_rate batch_size epochs (sample seed train_ratings) test_ratings
         (fst (initialize seed_rng normal seed m n d g0))"
    by (simp add: fit_def Let_def case_prod_beta)
  also have "\<dots> = (case num_batches (length (sample seed train_ratings)) batch_size of
          Inl e \<Rightarrow> (fst (initialize seed_rng normal seed m n d g0), Some e)
        | Inr nb \<Rightarrow>
            run_loop
              (\<lambda>epoch. run_loop (\<lambda>(idx, mb). batch_step cg learning_rate test_ratings epoch idx mb)
                          (zip [0..<nat nb] (minibatches (sample seed train_ratings) batch_size nb)))
              [0..<nat epochs] (fst (initialize seed_rng normal seed m n d g0)))"
    unfolding training_def te ..
  finally show "fst (fit seed_rng normal sample cg seed m n d learning_rate batch_size epochs
          train_ratings test_ratings g0)
     = (case num_batches (length (sample seed train_ratings)) batch_size of
          Inl e \<Rightarrow> (fst (initialize seed_rng normal seed m n d g0), Some e)
        | Inr nb \<Rightarrow>
            run_loop
              (\<lambda>epoch. run_loop (\<lambda>(idx, mb). batch_step cg learning_rate test_ratings epoch idx mb)
                          (zip [0..<nat nb] (minibatches (sample seed train_ratings) batch_size nb)))
              [0..<nat epochs] (fst (initialize seed_rng normal seed m n d g0)))" .
next
  fix nb
  show "minibatches (sample seed train_ratings) batch_size nb
           = map (\<lambda>idx. take (nat batch_size)
                          (drop (idx * nat batch_size) (sample seed train_ratings)))
               [0..<nat nb]"
    by (simp add: minibatches_def minibatch_at_def iloc_def)
next
  fix nb
  assume "0 < batch_size \<and> num_batches (length (sample seed train_ratings)) batch_size = Inr nb"
  then have "0 < batch_size" and "num_batches (length (sample seed train_ratings)) batch_size = Inr nb"
    by simp_all
  then show "concat (minibatches (sample seed train_ratings) batch_size nb) = sample seed train_ratings"
    by (rule minibatches_cover)
qed

theorem epochs_share_one_shuffle_witness:
  "num_batches (length (rot_sample 1 shared_user)) 1 = Inr 2 \<and>
   concat (minibatches (rot_sample 1 shared_user) 1 2) = rot_sample 1 shared_user \<and>
   minibatches (rot_sample 1 shared_user) 1 2
     = [[\<lparr>user = 1, item = 2, rating = 1\<rparr>], [\<lparr>user = 1, item = 1, rating = 4\<rparr>]] \<and>
   fst (fit ex_seed_rng ex_normal rot_sample compute_gradients 1 1 2 1 (1 / 4) 1 2
          shared_user [] 5)
     = run_loop
         (\<lambda>epoch. run_loop (\<lambda>(idx, mb). batch_step compute_gradients (1 / 4) [] epoch idx mb)
                     (zip [0..<nat 2] (minibatches (rot_sample 1 shared_user) 1 2)))
         [0..<nat 2] (fst (initialize ex_seed_rng ex_normal 1 1 2 1 5))"
proof -
  note t = epochs_share_one_shuffle[of ex_seed_rng ex_normal rot_sample compute_gradients
      1 1 2 1 "1 / 4" 1 2 shared_user "[]" 5]
  have nb: "num_batches (length (rot_sample 1 shared_user)) 1 = Inr 2"
    by (simp add: num_batches_def rot_sample_def shared_user_def)
  have p: "(0::int) < 1" by simp
  from t p nb have c: "concat (minibatches (rot_sample 1 shared_user) 1 2) = rot_sample 1 shared_user"
    by (elim conjE) blast
  from t have "minibatches (rot_sample 1 shared_user) 1 2
           = map (\<lambda>idx. take (nat 1) (drop (idx * nat 1) (rot_sample 1 shared_user))) [0..<nat 2]"
    by (elim conjE) blast
  then have m: "minibatches (rot_sample 1 shared_user) 1 2
     = [[\<lparr>user = 1, item = 2, rating = 1\<rparr>], [\<lparr>user = 1, item = 1, rating = 4\<rparr>]]"
    by (simp add: shuffle_defs)
  from t have "fst (fit ex_seed_rng ex_normal rot_sample compute_gradients 1 1 2 1 (1 / 4) 1 2
          shared_user [] 5)
     = (case num_batches (length (rot_sample 1 shared_user)) 1 of
          Inl e \<Rightarrow> (fst (initialize ex_seed_rng ex_normal 1 1 2 1 5), Some e)
        | Inr nb \<Rightarrow>
            run_loop
              (\<lambda>epoch. run_loop (\<lambda>(idx, mb). batch_step compute_gradients (1 / 4) [] epoch idx mb)
                          (zip [0..<nat nb] (minibatches (rot_sample 1 shared_user) 1 nb)))
              [0..<nat 2] (fst (initialize ex_seed_rng ex_normal 1 1 2 1 5)))"
    by (elim conjE)
  then have f: "fst (fit ex_seed_rng ex_normal rot_sample compute_gradients 1 1 2 1 (1 / 4) 1 2
          shared_user [] 5)
     = run_loop
         (\<lambda>epoch. run_loop (\<lambda>(idx, mb). batch_step compute_gradients (1 / 4) [] epoch idx mb)
                     (zip [0..<nat 2] (minibatches (rot_sample 1 shared_user) 1 2)))
         [0..<nat 2] (fst (initialize ex_seed_rng ex_normal 1 1 2 1 5))"
    by (simp only: nb sum.case)
  show ?thesis by (intro conjI) (rule nb c m f)+
qed

subsection \<open>Determinism\<close>

text \<open>
  C9. The run (initialisation cell and training loop) does not depend on the state the
  random generator is in when it starts: \<open>np.random.seed(seed)\<close> replaces that state, and
  the shuffle has a generator of its own made from the seed. Two runs with the same
  training ratings, \<open>d\<close>, epochs, batch size, learning rate and seed end with the same
  factor matrices, traces and generator state, and the recommendations computed from the
  factors are the same.
\<close>

theorem fit_ignores_generator_state:
  "fit seed_rng normal sample cg seed m n d learning_rate batch_size epochs
       train_ratings test_ratings g
     = fit seed_rng normal sample cg seed m n d learning_rate batch_size epochs
       train_ratings test_ratings g' \<and>
   get_recommendations
       (default_prediction user_ratings
          (fst (fst (fit seed_rng normal sample cg seed m n d learning_rate
             batch_size epochs train_ratings test_ratings g)))) usr N remove_known_pos
     = get_recommendations
       (default_prediction user_ratings
          (fst (fst (fit seed_rng normal sample cg seed m n d learning_rate
             batch_size epochs train_ratings test_ratings g')))) usr N remove_known_pos"
proof -
  have "fit seed_rng normal sample cg seed m n d learning_rate batch_size epochs
       train_ratings test_ratings g
     = fit seed_rng normal sample cg seed m n d learning_rate batch_size epochs
       train_ratings test_ratings g'"
    by (simp add: fit_def initialize_def)
  then show ?thesis by simp
qed

theorem fit_ignores_generator_state_witness:
  "fit ex_seed_rng ex_normal rot_sample compute_gradients 1 2 2 1 0 1 2 two_ratings [] 5
     = fit ex_seed_rng ex_normal rot_sample compute_gradients 1 2 2 1 0 1 2 two_ratings [] 7"
  using fit_ignores_generator_state[of ex_seed_rng ex_normal rot_sample compute_gradients 1 2 2 1 0 1 2
      two_ratings "[]" 5 7] by blast

subsection \<open>Precision at N\<close>

text \<open>
  C7. For \<open>N > 0\<close> and a recommendation list of at most \<open>N\<close> ids (the length
  \<open>get_recommendations\<close> keeps to), the value the loop stores for a user of
  \<open>relevant_items\<close> is the number of ids that are both recommended and relevant, divided
  by \<open>N\<close>; it lies between 0 and 1, it is 0 when no recommended id is relevant, and it is
  1 when the list holds \<open>N\<close> different ids that are all relevant.
\<close>

theorem precision_at_N_bounds:
  assumes "0 < N" and "int (length recommendations) \<le> N"
  shows "precision_at_N recommendations relevant N
           = real (card (set recommendations \<inter> set relevant)) / real_of_int N \<and>
         0 \<le> precision_at_N recommendations relevant N \<and>
         precision_at_N recommendations relevant N \<le> 1 \<and>
         (set recommendations \<inter> set relevant = {} \<longrightarrow>
            precision_at_N recommendations relevant N = 0) \<and>
         (distinct recommendations \<and> int (length recommendations) = N \<and>
          set recommendations \<subseteq> set relevant \<longrightarrow>
            precision_at_N recommendations relevant N = 1) \<and>
         (\<forall>gp usr prec. precision_loop gp N [(usr, relevant)] prec =
            (case get_recommendations gp usr N True of
               Inl e \<Rightarrow> Inl e
             | Inr recs \<Rightarrow>
                 Inr (AList.update usr (Some (precision_at_N (map fst recs) relevant N)) prec))) \<and>
         (\<forall>gp usr rkp recs. get_recommendations gp usr N rkp = Inr recs \<longrightarrow>
            int (length recs) \<le> N)"
proof -
  let ?c = "card (set recommendations \<inter> set relevant)"
  have eq: "precision_at_N recommendations relevant N = real ?c / real_of_int N"
    by (simp add: precision_at_N_def length_intersect1d)
  have "?c \<le> card (set recommendations)" by (simp add: card_mono)
  also have "\<dots> \<le> length recommendations" by (rule card_length)
  finally have "int ?c \<le> N" using assms(2) by linarith
  then have le: "real ?c \<le> real_of_int N" by (metis of_int_le_iff of_int_of_nat_eq)
  have nonneg: "0 \<le> precision_at_N recommendations relevant N"
    using assms(1) by (simp add: eq)
  have le1: "precision_at_N recommendations relevant N \<le> 1"
    using assms(1) le by (simp add: eq)
  have zero: "precision_at_N recommendations relevant N = 0"
    if "set recommendations \<inter> set relevant = {}"
    using that by (simp add: eq)
  have one: "precision_at_N recommendations relevant N = 1"
    if "distinct recommendations \<and> int (length recommendations) = N \<and>
        set recommendations \<subseteq> set relevant"
  proof -
    from that have "set recommendations \<inter> set relevant = set recommendations" by auto
    with that have "int ?c = N" by (simp add: distinct_card)
    then have "real ?c = real_of_int N" by (metis of_int_of_nat_eq)
    with assms(1) show ?thesis by (simp add: eq)
  qed
  have loop: "precision_loop gp N [(usr, relevant)] prec =
            (case get_recommendations gp usr N True of
               Inl e \<Rightarrow> Inl e
             | Inr recs \<Rightarrow>
                 Inr (AList.update usr (Some (precision_at_N (map fst recs) relevant N)) prec))"
    for gp usr prec
    using assms(1) by (simp split: sum.splits)
  have len: "int (length recs) \<le> N"
    if "get_recommendations gp usr N rkp = Inr recs" for gp usr rkp recs
    using get_recommendations_length[OF that] assms(1) by simp
  from eq nonneg le1 zero one loop len show ?thesis by blast
qed

theorem precision_at_N_bounds_witness:
  "(0::int) < 2 \<and> int (length [1, 2::int]) \<le> 2 \<and>
   precision_at_N [1, 2] [2, 1, 3] 2 = 1 \<and>
   precision_at_N [1, 2] [3, 4] 2 = 0 \<and>
   precision_at_N [1, 2] [2, 3] 2 = 1 / 2"
proof -
  have p: "(0::int) < 2" by simp
  have l: "int (length [1, 2::int]) \<le> 2" by simp
  have a: "precision_at_N [1, 2] [2, 1, 3] 2 = 1"
    using precision_at_N_bounds[OF p l, of "[2, 1, 3]"] by simp
  have b: "precision_at_N [1, 2] [3, 4] 2 = 0"
    using precision_at_N_bounds[OF p l, of "[3, 4]"] by simp
  have "set [1, 2::int] \<inter> set [2, 3] = {2}" by auto
  then have c: "precision_at_N [1, 2] [2, 3] 2 = 1 / 2"
    using precision_at_N_bounds[OF p l, of "[2, 3]"] by simp
  from p l a b c show ?thesis by blast
qed

subsection \<open>Known positives\<close>

text \<open>
  C6, as the claim states it, fails for \<open>N = 0\<close>: the loop of \<open>get_recommendations\<close>
  appends before it compares the length with \<open>N\<close>, so it never stops at \<open>N = 0\<close> and
  returns every candidate, more than \<open>N\<close> ids.
\<close>

theorem zero_N_returns_every_candidate:
  "get_recommendations ex_gp 2 0 True = Inr [(1, 2), (2, 1)] \<and>
   \<not> int (length [(1::int, 2::real), (2, 1)]) \<le> 0"
  by (simp add: rec_defs upto.simps sort_key_def)

text \<open>
  C6, amended: for every user, every \<open>N \<ge> 1\<close> and every state, the recommendations
  without known positives contain no id of the user's known positives, are at most \<open>N\<close>,
  exactly the smaller of \<open>N\<close> and the number of items that are not known positives (so
  fewer than \<open>N\<close> when fewer remain), hold no id twice and only ids of item rows; for a
  user of the user matrix the call returns a list and no error.
\<close>

theorem recommendations_exclude_known_positives:
  assumes "get_recommendations (default_prediction user_ratings st) usr N True = Inr recs"
    and "1 \<le> N"
  shows "set (map fst recs) \<inter> set (known_positives user_ratings usr) = {} \<and>
         int (length recs) \<le> N \<and>
         length recs
           = min (nat N)
               (length (filter (\<lambda>i. i \<notin> set (known_positives user_ratings usr))
                          [1..int (length (item_factors st))])) \<and>
         distinct (map fst recs) \<and>
         set (map fst recs) \<subseteq> {1..int (length (item_factors st))} \<and>
         (\<forall>u M. 1 \<le> u \<and> u \<le> int (length (user_factors st)) \<longrightarrow>
            (\<exists>rs. get_recommendations (default_prediction user_ratings st) u M True = Inr rs))"
proof -
  from assms(1) obtain preds where
    ps: "default_prediction user_ratings st usr True = Inr preds" and "recs = collect N preds []"
    by (auto simp: get_recommendations_def split: sum.splits)
  with assms(2) have recs: "recs = take (nat N) preds" by (simp add: collect_take)
  have sub: "set (map fst recs) \<subseteq> set (map fst preds)"
    unfolding recs by (auto dest: in_set_takeD)
  have a: "set (map fst recs) \<inter> set (known_positives user_ratings usr) = {}"
    using sub default_prediction_True(1)[OF ps] by auto
  have b: "int (length recs) \<le> N" using assms(2) by (simp add: recs)
  have c: "length recs
           = min (nat N)
               (length (filter (\<lambda>i. i \<notin> set (known_positives user_ratings usr))
                          [1..int (length (item_factors st))]))"
    using default_prediction_True(3)[OF ps] by (simp add: recs min.commute)
  have d: "distinct (map fst recs)"
    using default_prediction_True(2)[OF ps] by (simp add: recs take_map[symmetric] distinct_take)
  have e: "set (map fst recs) \<subseteq> {1..int (length (item_factors st))}"
    using sub default_prediction_True(1)[OF ps] by auto
  have f: "\<exists>rs. get_recommendations (default_prediction user_ratings st) u M True = Inr rs"
    if "1 \<le> u \<and> u \<le> int (length (user_factors st))" for u M
  proof -
    from that obtain preds' where "default_prediction user_ratings st u True = Inr preds'"
      using default_prediction_total by blast
    then show ?thesis by (simp add: get_recommendations_def)
  qed
  from a b c d e f show ?thesis by blast
qed

theorem recommendations_exclude_known_positives_witness:
  "get_recommendations (default_prediction ex_user_ratings ex_state) 1 2 True = Inr [(2, 2)] \<and>
   (1::int) \<le> 2 \<and>
   set (map fst [(2::int, 2::real)]) \<inter> set (known_positives ex_user_ratings 1) = {}"
proof -
  have h: "get_recommendations (default_prediction ex_user_ratings ex_state) 1 2 True = Inr [(2, 2)]"
    by (simp add: rec_defs upto.simps sort_key_def)
  have p: "(1::int) \<le> 2" by simp
  from recommendations_exclude_known_positives[OF h p] h p show ?thesis by blast
qed

subsection \<open>Mean precision\<close>

text \<open>
  C5, as the claim states it, fails: the claim has the mean fail with InvalidConfig for
  \<open>N \<le> 0\<close> and for an empty user set. The notebook checks neither: with no held-out
  ratings \<open>np.mean\<close> of the empty list is \<open>nan\<close>, and with \<open>N = -1\<close> the precision of
  user 2 is \<open>-1\<close> and so is the mean; no exception is raised.
\<close>

theorem no_invalid_config_for_empty_users_or_negative_N:
  "evaluation ex_gp [1, 2] [] 10 = Inr None \<and>
   evaluation ex_gp [1, 2] ex_test (- 1) = Inr (Some (- 1))"
  by (simp add: eval_defs)

text \<open>
  C5, amended: when the evaluation returns, its result is the arithmetic mean of exactly
  the precision values computed, one for each user with held-out ratings; the other users
  of \<open>data.users\<close> contribute nothing. It raises no InvalidConfig: with no held-out ratings
  the result is \<open>nan\<close>; with \<open>N = 0\<close> and held-out ratings it raises, and what it raises is
  ZeroDivisionError when there is a prediction for every user with held-out ratings; with
  \<open>N \<noteq> 0\<close> (negative too) and a prediction for every user with held-out ratings it
  returns.
\<close>

theorem mean_precision_of_computed_values:
  "(\<forall>r. evaluation gp data_users test_ratings N = Inr r \<longrightarrow>
      r = np_mean (map (user_precision gp N) (get_relevant_items test_ratings))) \<and>
   (test_ratings = [] \<longrightarrow> evaluation gp data_users test_ratings N = Inr None) \<and>
   (test_ratings \<noteq> [] \<and> N = 0 \<longrightarrow>
      (\<exists>e. evaluation gp data_users test_ratings N = Inl e)) \<and>
   ((\<forall>r \<in> set test_ratings. \<exists>preds. gp (user r) True = Inr preds) \<and>
    test_ratings \<noteq> [] \<and> N = 0 \<longrightarrow>
      evaluation gp data_users test_ratings N = Inl ZeroDivisionError) \<and>
   ((\<forall>r \<in> set test_ratings. \<exists>preds. gp (user r) True = Inr preds) \<and> N \<noteq> 0 \<longrightarrow>
      (\<exists>r. evaluation gp data_users test_ratings N = Inr r))"
proof (intro conjI allI impI)
  fix r assume "evaluation gp data_users test_ratings N = Inr r"
  then show "r = np_mean (map (user_precision gp N) (get_relevant_items test_ratings))"
    by (rule evaluation_mean)
next
  assume "test_ratings = []"
  then show "evaluation gp data_users test_ratings N = Inr None"
    by (simp add: evaluation_def get_relevant_items_def mean_precision_def fromkeys_no_values np_mean_def)
next
  assume "test_ratings \<noteq> [] \<and> N = 0"
  then show "\<exists>e. evaluation gp data_users test_ratings N = Inl e"
    using evaluation_zero_raises[of test_ratings gp data_users] by simp
next
  assume "(\<forall>r \<in> set test_ratings. \<exists>preds. gp (user r) True = Inr preds) \<and>
          test_ratings \<noteq> [] \<and> N = 0"
  then show "evaluation gp data_users test_ratings N = Inl ZeroDivisionError"
    using evaluation_zero_division[of test_ratings gp data_users] by simp
next
  assume a: "(\<forall>r \<in> set test_ratings. \<exists>preds. gp (user r) True = Inr preds) \<and> N \<noteq> 0"
  then have "N \<noteq> 0" and "\<forall>r \<in> set test_ratings. \<exists>preds. gp (user r) True = Inr preds"
    by simp_all
  then show "\<exists>r. evaluation gp data_users test_ratings N = Inr r"
    by (rule evaluation_returns)
qed

theorem mean_precision_of_computed_values_witness:
  "evaluation ex_gp [1, 2, 3] ex_test 2 = Inr (Some (1 / 2)) \<and>
   np_mean (map (user_precision ex_gp 2) (get_relevant_items ex_test)) = Some (1 / 2) \<and>
   evaluation ex_gp [1, 2, 3] [] 2 = Inr None \<and>
   ex_gp 0 True = Inl UnknownUser \<and>
   evaluation ex_gp [1, 2, 3] ex_test 0 = Inl ZeroDivisionError \<and>
   (\<exists>r. evaluation ex_gp [1, 2, 3] ex_test (- 1) = Inr r) \<and>
   evaluation ex_gp [1, 2, 3] ex_test (- 1) = Inr (Some (- 1)) \<and>
   np_mean (map (user_precision ex_gp (- 1)) (get_relevant_items ex_test)) = Some (- 1)"
proof -
  note t2 = mean_precision_of_computed_values[of ex_gp "[1, 2, 3]" ex_test 2]
  note te = mean_precision_of_computed_values[of ex_gp "[1, 2, 3]" "[]" 2]
  note t0 = mean_precision_of_computed_values[of ex_gp "[1, 2, 3]" ex_test 0]
  note tn = mean_precision_of_computed_values[of ex_gp "[1, 2, 3]" ex_test "- 1"]
  have h: "evaluation ex_gp [1, 2, 3] ex_test 2 = Inr (Some (1 / 2))"
    by (simp add: eval_defs)
  from t2 have "evaluation ex_gp [1, 2, 3] ex_test 2 = Inr (Some (1 / 2)) \<longrightarrow>
      Some (1 / 2) = np_mean (map (user_precision ex_gp 2) (get_relevant_items ex_test))"
    by (elim conjE allE)
  with h have m: "np_mean (map (user_precision ex_gp 2) (get_relevant_items ex_test)) = Some (1 / 2)"
    by simp
  from te have e: "evaluation ex_gp [1, 2, 3] [] 2 = Inr None" by (elim conjE) simp
  have u0: "ex_gp 0 True = Inl UnknownUser" by (simp add: rec_defs)
  have gp: "\<forall>r \<in> set ex_test. \<exists>preds. ex_gp (user r) True = Inr preds"
    by (simp add: eval_defs)
  have ne: "ex_test \<noteq> []" by (simp add: ex_test_def)
  from t0 gp ne have z: "evaluation ex_gp [1, 2, 3] ex_test 0 = Inl ZeroDivisionError"
    by (elim conjE) simp
  from tn gp have n: "\<exists>r. evaluation ex_gp [1, 2, 3] ex_test (- 1) = Inr r"
    by (elim conjE) simp
  have nv: "evaluation ex_gp [1, 2, 3] ex_test (- 1) = Inr (Some (- 1))"
    by (simp add: eval_defs)
  from tn have "evaluation ex_gp [1, 2, 3] ex_test (- 1) = Inr (Some (- 1)) \<longrightarrow>
      Some (- 1) = np_mean (map (user_precision ex_gp (- 1)) (get_relevant_items ex_test))"
    by (elim conjE allE)
  with nv have nm: "np_mean (map (user_precision ex_gp (- 1)) (get_relevant_items ex_test)) = Some (- 1)"
    by simp
  show ?thesis
    by (intro conjI) (rule h m e u0 z n nv nm)+
qed

end
